theory Spec2Isabelle
  imports Complex_Main "HOL-Library.Log_Nat" "HOL-Library.Monad_Syntax"
begin

section \<open>Password hashing and verification (auth/unified_auth.py)\<close>

text \<open>
  Python strings are modelled as \<^typ>\<open>string\<close>. The two library primitives the module calls
  are parameters of the model:
  \<^item> \<open>sha256_hex s\<close> stands for \<^verbatim>\<open>hashlib.sha256(s.encode()).hexdigest()\<close>;
  \<^item> \<open>checkpw p h\<close> stands for \<^verbatim>\<open>bcrypt.checkpw(p.encode('utf-8'), h.encode('utf-8'))\<close>,
    with \<open>None\<close> when the library raises (for instance on a malformed salt).
  The salt drawn by \<^verbatim>\<open>secrets.token_hex(16)\<close> is an argument of \<open>hash_password\<close>.
\<close>

definition hexdigits :: "char set" where
  "hexdigits = set ''0123456789abcdef''"

text \<open>\<^verbatim>\<open>s.startswith(p)\<close>\<close>

fun startswith :: "string \<Rightarrow> string \<Rightarrow> bool" where
  "startswith s [] = True"
| "startswith [] (p # ps) = False"
| "startswith (c # cs) (p # ps) = (c = p \<and> startswith cs ps)"

text \<open>\<^verbatim>\<open>s.split(d, 1)\<close>: one part when the separator is absent, otherwise the text before
  the first separator and the text after it.\<close>

definition split_once :: "char \<Rightarrow> string \<Rightarrow> string list" where
  "split_once d s =
     (if d \<in> set s then [takeWhile (\<lambda>c. c \<noteq> d) s, tl (dropWhile (\<lambda>c. c \<noteq> d) s)] else [s])"

text \<open>\<^verbatim>\<open>return f"{salt}${password_hash}"\<close>\<close>

definition hash_password :: "(string \<Rightarrow> string) \<Rightarrow> string \<Rightarrow> string \<Rightarrow> string" where
  "hash_password sha256_hex salt password = salt @ ''$'' @ sha256_hex (password @ salt)"

text \<open>The \<^verbatim>\<open>if/elif\<close> chain of \<open>verify_password\<close>, in the source's order. The enclosing
  \<^verbatim>\<open>try/except Exception\<close> turns every raise into \<open>False\<close>: a raise of the bcrypt check,
  and the unpacking of a split that does not give two parts.\<close>

definition verify_password ::
  "(string \<Rightarrow> string \<Rightarrow> bool option) \<Rightarrow> (string \<Rightarrow> string) \<Rightarrow> string \<Rightarrow> string \<Rightarrow> bool" where
  "verify_password checkpw sha256_hex password stored_hash =
     (if startswith stored_hash ''$2b$'' then
        (case checkpw password stored_hash of Some b \<Rightarrow> b | None \<Rightarrow> False)
      else if stored_hash = password then True
      else if CHR ''$'' \<in> set stored_hash \<and> length stored_hash > 50 then
        (case split_once (CHR ''$'') stored_hash of
           [salt, hash_part] \<Rightarrow> sha256_hex (password @ salt) = hash_part
         | _ \<Rightarrow> False)
      else if length stored_hash = 64 then sha256_hex password = stored_hash
      else password = stored_hash)"

section \<open>Authentication and rate limiting (auth/unified_auth.py)\<close>

text \<open>Values held in rows, in the session and in result objects: the values of JSON, with
  \<open>JNull\<close> for Python's \<^verbatim>\<open>None\<close>. A dictionary is an association list in insertion order.\<close>

datatype json =
    JNull
  | JBool bool
  | JNum rat
  | JStr string
  | JArr "json list"
  | JObj "(string \<times> json) list"

type_synonym row = "(string \<times> json) list"

text \<open>\<^verbatim>\<open>d.get(k)\<close> and \<^verbatim>\<open>d.get(k, default)\<close>\<close>

definition dict_get :: "row \<Rightarrow> string \<Rightarrow> json" where
  "dict_get d k = (case map_of d k of Some v \<Rightarrow> v | None \<Rightarrow> JNull)"

definition dict_get_default :: "row \<Rightarrow> string \<Rightarrow> json \<Rightarrow> json" where
  "dict_get_default d k dflt = (case map_of d k of Some v \<Rightarrow> v | None \<Rightarrow> dflt)"

text \<open>Instants and durations are counted in microseconds, the resolution of
  \<^verbatim>\<open>datetime\<close>.\<close>

type_synonym time = int

definition timedelta_minutes :: "int \<Rightarrow> int" where
  "timedelta_minutes m = m * 60 * 1000000"

definition timedelta_seconds :: "int \<Rightarrow> int" where
  "timedelta_seconds s = s * 1000000"

text \<open>The numeric entries of \<^verbatim>\<open>auth_config\<close> (config/unified_config.py,
  \<^verbatim>\<open>_init_auth_config\<close>); \<^verbatim>\<open>auth_config.get(k, d)\<close> reads them.\<close>

type_synonym config = "string \<rightharpoonup> int"

definition init_auth_config :: config where
  "init_auth_config = map_of
     [(''cookie_expiry_days'', 30),
      (''session_timeout'', 3600),
      (''max_login_attempts'', 3),
      (''password_min_length'', 12)]"

definition config_get :: "config \<Rightarrow> string \<Rightarrow> int \<Rightarrow> int" where
  "config_get c k dflt = (case c k of Some v \<Rightarrow> v | None \<Rightarrow> dflt)"

text \<open>\<^verbatim>\<open>st.session_state\<close>, with the fields \<^verbatim>\<open>_init_session_state\<close> creates.\<close>

record session_state =
  authenticated :: bool
  user_info :: row
  login_attempts :: int
  last_login_attempt :: "time option"
  current_project :: string

definition init_session_state :: session_state where
  "init_session_state =
     \<lparr>authenticated = False, user_info = [], login_attempts = 0,
      last_login_attempt = None, current_project = ''lead''\<rparr>"

definition check_rate_limit :: "config \<Rightarrow> time \<Rightarrow> session_state \<Rightarrow> bool" where
  "check_rate_limit auth_config now st =
     (let max_attempts = config_get auth_config ''max_login_attempts'' 3 in
      if login_attempts st \<ge> max_attempts then
        (case last_login_attempt st of
           Some last_t \<Rightarrow> if now - last_t < timedelta_minutes 15 then False else True
         | None \<Rightarrow> True)
      else True)"

definition increment_login_attempts :: "time \<Rightarrow> session_state \<Rightarrow> session_state" where
  "increment_login_attempts now st =
     st\<lparr>login_attempts := login_attempts st + 1, last_login_attempt := Some now\<rparr>"

definition reset_login_attempts :: "session_state \<Rightarrow> session_state" where
  "reset_login_attempts st = st\<lparr>login_attempts := 0, last_login_attempt := None\<rparr>"

text \<open>\<open>isoformat\<close> stands for \<^verbatim>\<open>datetime.isoformat\<close>.\<close>

definition set_user_session ::
  "(time \<Rightarrow> string) \<Rightarrow> time \<Rightarrow> row \<Rightarrow> string \<Rightarrow> session_state \<Rightarrow> session_state" where
  "set_user_session isoformat now user_data project_type st =
     st\<lparr>authenticated := True,
        user_info :=
          [(''id'', dict_get user_data ''id''),
           (''username'', dict_get user_data ''username''),
           (''email'', dict_get user_data ''email''),
           (''first_name'', dict_get user_data ''first_name''),
           (''last_name'', dict_get user_data ''last_name''),
           (''role'', dict_get user_data ''role''),
           (''project_type'', JStr project_type),
           (''login_time'', JStr (isoformat now))],
        current_project := project_type\<rparr>"

text \<open>A tenant store answers the query
  \<^verbatim>\<open>table('users').select('*').eq('username', username).execute()\<close> with the rows of
  \<^verbatim>\<open>response.data\<close>, or raises (\<open>None\<close>).\<close>

type_synonym store = "string \<Rightarrow> row list option"

text \<open>\<^verbatim>\<open>self.db_managers\<close>: the three tenants in the insertion order of the dictionary.\<close>

definition db_managers :: "store \<Rightarrow> store \<Rightarrow> store \<Rightarrow> (string \<times> store) list" where
  "db_managers lead_db cpa_db prop_db = [(''lead'', lead_db), (''cpa'', cpa_db), (''prop'', prop_db)]"

text \<open>The search loop of \<open>authenticate_user\<close>. It returns \<open>user_data\<close> with
  \<open>project_found\<close>, and the tenants it queried, in order. A raise of the query is caught
  inside the loop, which goes on to the next tenant.\<close>

fun search_stores :: "(string \<times> store) list \<Rightarrow> string \<Rightarrow> (row \<times> string) option \<times> string list" where
  "search_stores [] username = (None, [])"
| "search_stores ((project_type, db) # rest) username =
     (case db username of
        Some (r # rs) \<Rightarrow> (Some (r, project_type), [project_type])
      | Some [] \<Rightarrow> (case search_stores rest username of (res, tr) \<Rightarrow> (res, project_type # tr))
      | None \<Rightarrow> (case search_stores rest username of (res, tr) \<Rightarrow> (res, project_type # tr)))"

text \<open>The messages \<open>authenticate_user\<close> returns:
  \<^item> \<open>TooManyAttempts\<close>: \<^verbatim>\<open>Troppi tentativi di login. Riprova tra 15 minuti.\<close>
  \<^item> \<open>UserNotFound\<close>: \<^verbatim>\<open>Utente non trovato\<close>
  \<^item> \<open>WrongPassword\<close>: \<^verbatim>\<open>Password errata\<close>
  \<^item> \<open>Welcome v\<close>: \<^verbatim>\<open>Benvenuto {v}!\<close>
  \<^item> \<open>SystemError\<close>: \<^verbatim>\<open>Errore sistema: {e}\<close>, of the outer handler.\<close>

datatype message = TooManyAttempts | UserNotFound | WrongPassword | Welcome json | SystemError

text \<open>\<^verbatim>\<open>verify_password(password, user_data.get('password_hash', ''))\<close>: a stored value
  that is not a string has no \<^verbatim>\<open>startswith\<close>, and the raise is caught as \<open>False\<close>.\<close>

definition verify_stored ::
  "(string \<Rightarrow> string \<Rightarrow> bool option) \<Rightarrow> (string \<Rightarrow> string) \<Rightarrow> string \<Rightarrow> row \<Rightarrow> bool" where
  "verify_stored checkpw sha256_hex password user_data =
     (case dict_get_default user_data ''password_hash'' (JStr '''') of
        JStr stored_hash \<Rightarrow> verify_password checkpw sha256_hex password stored_hash
      | _ \<Rightarrow> False)"

text \<open>The outcome of one call: the returned triple, the session afterwards, and the tenant
  stores that were queried.\<close>

record auth_outcome =
  success :: bool
  msg :: message
  user_record :: row
  session :: session_state
  queried :: "string list"

text \<open>\<open>authenticate_user\<close>. The clock is read as \<open>now\<close> throughout one call. With these
  types no step outside the search loop raises, so the outer handler is not a branch.\<close>

definition authenticate_user ::
  "(string \<Rightarrow> string \<Rightarrow> bool option) \<Rightarrow> (string \<Rightarrow> string) \<Rightarrow> (time \<Rightarrow> string) \<Rightarrow>
   config \<Rightarrow> (string \<times> store) list \<Rightarrow> time \<Rightarrow> session_state \<Rightarrow> string \<Rightarrow> string \<Rightarrow> auth_outcome" where
  "authenticate_user checkpw sha256_hex isoformat auth_config dbs now st username password =
     (if \<not> check_rate_limit auth_config now st then
        \<lparr>success = False, msg = TooManyAttempts, user_record = [], session = st, queried = []\<rparr>
      else
        (case search_stores dbs username of (found, tr) \<Rightarrow>
           (case found of
              None \<Rightarrow>
                \<lparr>success = False, msg = UserNotFound, user_record = [],
                 session = increment_login_attempts now st, queried = tr\<rparr>
            | Some (user_data, project_found) \<Rightarrow>
                if user_data = [] then
                  \<lparr>success = False, msg = UserNotFound, user_record = [],
                   session = increment_login_attempts now st, queried = tr\<rparr>
                else if \<not> verify_stored checkpw sha256_hex password user_data then
                  \<lparr>success = False, msg = WrongPassword, user_record = [],
                   session = increment_login_attempts now st, queried = tr\<rparr>
                else
                  \<lparr>success = True,
                   msg = Welcome (dict_get_default user_data ''first_name'' (JStr username)),
                   user_record = user_data,
                   session = set_user_session isoformat now user_data project_found
                               (reset_login_attempts st),
                   queried = tr\<rparr>)))"

text \<open>The session after \<open>k\<close> failed attempts in a row, the last one recorded at \<open>t\<close>.\<close>

fun failed_attempts :: "nat \<Rightarrow> time \<Rightarrow> session_state \<Rightarrow> session_state" where
  "failed_attempts 0 t st = st"
| "failed_attempts (Suc k) t st = increment_login_attempts t (failed_attempts k t st)"

text \<open>The session after \<open>k\<close> calls of \<open>authenticate_user\<close> in a row with the same
  credentials, the clock standing at \<open>t\<close>.\<close>

fun repeat_login ::
  "(string \<Rightarrow> string \<Rightarrow> bool option) \<Rightarrow> (string \<Rightarrow> string) \<Rightarrow> (time \<Rightarrow> string) \<Rightarrow>
   config \<Rightarrow> (string \<times> store) list \<Rightarrow> time \<Rightarrow> string \<Rightarrow> string \<Rightarrow> nat \<Rightarrow> session_state \<Rightarrow> session_state" where
  "repeat_login checkpw sha256_hex isoformat auth_config dbs t username password 0 st = st"
| "repeat_login checkpw sha256_hex isoformat auth_config dbs t username password (Suc k) st =
     session (authenticate_user checkpw sha256_hex isoformat auth_config dbs t
                (repeat_login checkpw sha256_hex isoformat auth_config dbs t username password k st)
                username password)"

section \<open>The inference client (ai/unified_ai_assistant.py)\<close>

text \<open>Truth value of a Python object in \<^verbatim>\<open>if x:\<close>.\<close>

fun py_truthy :: "json \<Rightarrow> bool" where
  "py_truthy JNull = False"
| "py_truthy (JBool b) = b"
| "py_truthy (JNum q) = (q \<noteq> 0)"
| "py_truthy (JStr s) = (s \<noteq> [])"
| "py_truthy (JArr xs) = (xs \<noteq> [])"
| "py_truthy (JObj d) = (d \<noteq> [])"

text \<open>\<^verbatim>\<open>d[k] = v\<close>: an existing key keeps its place, a new key goes last.\<close>

fun dict_set :: "row \<Rightarrow> string \<Rightarrow> json \<Rightarrow> row" where
  "dict_set [] k v = [(k, v)]"
| "dict_set ((k', v') # d) k v = (if k' = k then (k, v) # d else (k', v') # dict_set d k v)"

text \<open>\<^verbatim>\<open>x[k]\<close> and \<^verbatim>\<open>x[0]\<close> on a decoded JSON value; \<open>None\<close> when Python raises
  (\<^verbatim>\<open>KeyError\<close>, \<^verbatim>\<open>IndexError\<close>, \<^verbatim>\<open>TypeError\<close>).\<close>

fun getitem_key :: "json \<Rightarrow> string \<Rightarrow> json option" where
  "getitem_key (JObj d) k = map_of d k"
| "getitem_key _ k = None"

fun getitem_first :: "json \<Rightarrow> json option" where
  "getitem_first (JArr (x # xs)) = Some x"
| "getitem_first (JStr (c # cs)) = Some (JStr [c])"
| "getitem_first _ = None"

text \<open>\<^verbatim>\<open>result['choices'][0]['message']['content']\<close>\<close>

definition extract_content :: "json \<Rightarrow> json option" where
  "extract_content result =
     (case getitem_key result ''choices'' of
        None \<Rightarrow> None
      | Some choices \<Rightarrow>
          (case getitem_first choices of
             None \<Rightarrow> None
           | Some choice \<Rightarrow>
               (case getitem_key choice ''message'' of
                  None \<Rightarrow> None
                | Some message \<Rightarrow> getitem_key message ''content'')))"

text \<open>Decimal text of a Python integer, as an f-string renders it.\<close>

fun str_nat :: "nat \<Rightarrow> string" where
  "str_nat n =
     (if n < 10 then [char_of (48 + n)] else str_nat (n div 10) @ [char_of (48 + n mod 10)])"

declare str_nat.simps [simp del]

definition str_int :: "int \<Rightarrow> string" where
  "str_int i = (if i < 0 then CHR ''-'' # str_nat (nat (- i)) else str_nat (nat i))"

text \<open>A message of the prompt: role and content.\<close>

type_synonym chat_message = "string \<times> string"

text \<open>\<^verbatim>\<open>cache_key = f"{project_type}_{hash(str(messages))}"\<close>; \<open>hash_str\<close> stands for
  \<^verbatim>\<open>hash(str(messages))\<close>.\<close>

definition cache_key :: "(chat_message list \<Rightarrow> int) \<Rightarrow> string \<Rightarrow> chat_message list \<Rightarrow> string" where
  "cache_key hash_str project_type messages = project_type @ ''_'' @ str_int (hash_str messages)"

text \<open>The settings read from the configuration object, and the request they produce.\<close>

record ai_settings =
  api_key :: string
  api_url :: string
  model_name :: string
  max_tokens :: int
  temperature :: rat

record http_request =
  req_url :: string
  req_authorization :: string
  req_model :: string
  req_messages :: "chat_message list"
  req_max_tokens :: int
  req_temperature :: rat
  req_stream :: bool
  req_timeout :: int

text \<open>What \<^verbatim>\<open>requests.post\<close> does: it raises, or it returns a response with a status code
  and a body that \<^verbatim>\<open>response.json()\<close> decodes (\<open>None\<close> when decoding raises).\<close>

datatype http_result = NetworkError | HttpResponse int "json option"

text \<open>The assistant's state: the cache, and the requests sent over the network so far, the
  latest first.\<close>

record ai_state =
  cache :: "string \<rightharpoonup> time \<times> json"
  sent :: "http_request list"

definition cache_timeout :: int where
  "cache_timeout = 300"

definition build_request :: "ai_settings \<Rightarrow> chat_message list \<Rightarrow> http_request" where
  "build_request cfg messages =
     \<lparr>req_url = api_url cfg,
      req_authorization = ''Bearer '' @ api_key cfg,
      req_model = model_name cfg,
      req_messages = messages,
      req_max_tokens = max_tokens cfg,
      req_temperature = temperature cfg,
      req_stream = False,
      req_timeout = 30\<rparr>"

text \<open>\<open>_make_api_call\<close>. The clock is read at the cache check (\<open>t_check\<close>) and again when the
  response is stored (\<open>t_store\<close>). \<open>post\<close> is the network at the time of the call. The result
  \<open>JNull\<close> is Python's \<^verbatim>\<open>None\<close>; every raise inside the body ends there.\<close>

definition make_api_call ::
  "(chat_message list \<Rightarrow> int) \<Rightarrow> ai_settings \<Rightarrow> (http_request \<Rightarrow> http_result) \<Rightarrow> time \<Rightarrow> time \<Rightarrow>
   chat_message list \<Rightarrow> string \<Rightarrow> ai_state \<Rightarrow> json \<times> ai_state" where
  "make_api_call hash_str cfg post t_check t_store messages project_type st =
     (let key = cache_key hash_str project_type messages;
          fresh = (case cache st key of
                     Some (cached_time, response) \<Rightarrow>
                       if t_check - cached_time < timedelta_seconds cache_timeout
                       then Some response else None
                   | None \<Rightarrow> None)
      in case fresh of
           Some response \<Rightarrow> (response, st)
         | None \<Rightarrow>
             (let request = build_request cfg messages;
                  st1 = st\<lparr>sent := request # sent st\<rparr>
              in case post request of
                   NetworkError \<Rightarrow> (JNull, st1)
                 | HttpResponse status_code body \<Rightarrow>
                     if status_code = 200 then
                       (case body of
                          None \<Rightarrow> (JNull, st1)
                        | Some result \<Rightarrow>
                            (case extract_content result of
                               None \<Rightarrow> (JNull, st1)
                             | Some ai_response \<Rightarrow>
                                 (ai_response,
                                  st1\<lparr>cache := (cache st1)(key \<mapsto> (t_store, ai_response))\<rparr>)))
                     else (JNull, st1)))"

section \<open>Local statistics (ai/unified_ai_assistant.py)\<close>

subsection \<open>Python floats\<close>

text \<open>A finite \<^verbatim>\<open>float\<close> is the rational it denotes. \<open>round_double\<close> rounds a rational to
  the nearest IEEE 754 binary64 value, ties to even, with 53 significant bits and the
  subnormal spacing below \<open>2\<^sup>-\<^sup>1\<^sup>0\<^sup>2\<^sup>2\<close>; overflow does not arise for the values computed here.\<close>

definition pow2 :: "int \<Rightarrow> rat" where
  "pow2 e = (if 0 \<le> e then 2 ^ nat e else 1 / 2 ^ nat (- e))"

definition round_half_even :: "rat \<Rightarrow> int" where
  "round_half_even x =
     (let f = \<lfloor>x\<rfloor>; d = x - of_int f
      in if d < 1 / 2 then f else if 1 / 2 < d then f + 1 else if even f then f else f + 1)"

text \<open>\<open>ilog2 q\<close> is the exponent \<open>e\<close> with \<open>2\<^sup>e \<le> q < 2\<^sup>e\<^sup>+\<^sup>1\<close>, for positive \<open>q\<close>.\<close>

definition ilog2 :: "rat \<Rightarrow> int" where
  "ilog2 q =
     (case quotient_of q of (a, b) \<Rightarrow>
        let e0 = bitlen a - bitlen b - 1 in if pow2 (e0 + 1) \<le> q then e0 + 1 else e0)"

definition round_double :: "rat \<Rightarrow> rat" where
  "round_double q =
     (if q = 0 then 0
      else let e = max (ilog2 \<bar>q\<bar>) (- 1022); ulp = pow2 (e - 52)
           in of_int (round_half_even (q / ulp)) * ulp)"

text \<open>\<^verbatim>\<open>a / b\<close> on integers (true division, correctly rounded; the callers test
  \<^verbatim>\<open>b > 0\<close> first) and \<^verbatim>\<open>x * y\<close> on floats.\<close>

definition int_truediv :: "int \<Rightarrow> int \<Rightarrow> rat" where
  "int_truediv a b = round_double (of_int a / of_int b)"

definition float_mul :: "rat \<Rightarrow> rat \<Rightarrow> rat" where
  "float_mul x y = round_double (x * y)"

subsection \<open>Data frames\<close>

text \<open>A \<^verbatim>\<open>DataFrame\<close>: its column names and its rows, each row giving the cell of a column.
  What the module computes through pandas alone is left to \<open>pd\<close>: \<open>pd e data\<close> is the value of
  the pandas expression named \<open>e\<close> on \<open>data\<close>, or \<open>None\<close> when evaluating it raises.\<close>

record dataframe =
  columns :: "string list"
  rows :: "row list"

type_synonym pandas = "string \<Rightarrow> dataframe \<Rightarrow> json option"

text \<open>\<open>_calculate_conversion_rate\<close>: \<^verbatim>\<open>data[data['stato'] == 'converted'].shape[0]\<close> counts the
  rows whose \<open>stato\<close> cell is the string \<open>converted\<close>.\<close>

definition calculate_conversion_rate :: "dataframe \<Rightarrow> rat" where
  "calculate_conversion_rate data =
     (if ''stato'' \<in> set (columns data) then
        (let converted = length (filter (\<lambda>r. dict_get r ''stato'' = JStr ''converted'') (rows data));
             total = length (rows data)
         in if total > 0 then float_mul (int_truediv (int converted) (int total)) 100 else 0)
      else 0)"

definition get_top_sources :: "pandas \<Rightarrow> dataframe \<Rightarrow> json option" where
  "get_top_sources pd data =
     (if ''fonte'' \<in> set (columns data) then pd ''fonte.value_counts.head(5).to_dict'' data
      else Some (JArr []))"

definition analyze_trends :: "pandas \<Rightarrow> dataframe \<Rightarrow> json option" where
  "analyze_trends pd data =
     (if ''data_registrazione'' \<in> set (columns data) then pd ''daily_average,growth_rate'' data
      else Some (JObj []))"

definition get_broker_distribution :: "pandas \<Rightarrow> dataframe \<Rightarrow> json option" where
  "get_broker_distribution pd data =
     (if ''broker'' \<in> set (columns data) then pd ''broker.value_counts.to_dict'' data
      else Some (JObj []))"

definition analyze_platforms :: "pandas \<Rightarrow> dataframe \<Rightarrow> json option" where
  "analyze_platforms pd data =
     (if ''piattaforma'' \<in> set (columns data) then pd ''piattaforma.value_counts.to_dict'' data
      else Some (JObj []))"

text \<open>\<^verbatim>\<open>notna\<close> holds of a cell that is not missing.\<close>

definition analyze_vps_usage :: "dataframe \<Rightarrow> json" where
  "analyze_vps_usage data =
     (if ''vps_ip'' \<in> set (columns data) then
        (let vps_users = length (filter (\<lambda>r. dict_get r ''vps_ip'' \<noteq> JNull) (rows data));
             total = length (rows data)
         in JObj [(''vps_users'', JNum (of_nat vps_users)),
                  (''vps_percentage'',
                   JNum (if total > 0 then float_mul (int_truediv (int vps_users) (int total)) 100
                         else 0))])
      else JObj [])"

text \<open>The literals \<^verbatim>\<open>1.1\<close> and \<^verbatim>\<open>1.2\<close> are the doubles nearest to them; a sum that is not
  a number cannot be multiplied by a float.\<close>

definition calculate_financial_projections :: "pandas \<Rightarrow> dataframe \<Rightarrow> json option" where
  "calculate_financial_projections pd data =
     (if ''deposito'' \<in> set (columns data) then
        do {
          total_deposits \<leftarrow> pd ''deposito.sum'' data;
          avg_deposit \<leftarrow> pd ''deposito.mean'' data;
          (case total_deposits of
             JNum x \<Rightarrow>
               Some (JObj [(''total_deposits'', total_deposits),
                           (''average_deposit'', avg_deposit),
                           (''projected_monthly'', JNum (float_mul x (round_double (11 / 10)))),
                           (''projected_yearly'', JNum (float_mul x (round_double (12 / 10))))])
           | _ \<Rightarrow> None)
        }
      else Some (JObj []))"

definition rank_brokers :: "pandas \<Rightarrow> dataframe \<Rightarrow> json option" where
  "rank_brokers pd data =
     (if ''broker'' \<in> set (columns data) \<and> ''deposito'' \<in> set (columns data)
      then pd ''groupby(broker).agg(deposito:sum,mean,count).round(2).to_dict(index)'' data
      else Some (JArr []))"

definition calculate_broker_metrics :: "pandas \<Rightarrow> dataframe \<Rightarrow> json option" where
  "calculate_broker_metrics pd data =
     do {
       total_brokers \<leftarrow>
         (if ''broker'' \<in> set (columns data) then pd ''broker.nunique'' data else Some (JNum 0));
       average_per_broker \<leftarrow>
         (if ''broker'' \<in> set (columns data) \<and> ''deposito'' \<in> set (columns data)
          then pd ''groupby(broker).deposito.mean.mean'' data else Some (JNum 0));
       Some (JObj [(''total_brokers'', total_brokers),
                   (''average_per_broker'', average_per_broker)])
     }"

definition analyze_market_trends :: json where
  "analyze_market_trends =
     JObj [(''market_growth'', JStr ''positive''),
           (''trend_direction'', JStr ''upward''),
           (''volatility'', JStr ''medium'')]"

definition assess_broker_risks :: json where
  "assess_broker_risks =
     JObj [(''risk_level'', JStr ''low''),
           (''risk_factors'', JArr [JStr ''market_volatility'', JStr ''regulatory_changes'']),
           (''mitigation_strategies'', JArr [JStr ''diversification'', JStr ''risk_monitoring''])]"

section \<open>The domain callers (ai/unified_ai_assistant.py)\<close>

text \<open>Library functions the callers use: \<^verbatim>\<open>hash(str(messages))\<close>, \<^verbatim>\<open>str.upper\<close>,
  \<^verbatim>\<open>json.dumps(x, indent=2)\<close> (\<open>None\<close> when the value is not serialisable),
  \<^verbatim>\<open>json.loads\<close> on a string (\<open>None\<close> for \<^verbatim>\<open>JSONDecodeError\<close>),
  \<^verbatim>\<open>datetime.isoformat\<close>, and pandas.\<close>

record pylib =
  lib_hash_str :: "chat_message list \<Rightarrow> int"
  lib_upper :: "string \<Rightarrow> string"
  lib_json_dumps :: "json \<Rightarrow> string option"
  lib_json_loads :: "string \<Rightarrow> json option"
  lib_isoformat :: "time \<Rightarrow> string"
  lib_pd :: pandas

text \<open>The surroundings of one call: the network, and the clock readings at the cache check,
  at the store into the cache, and at the final time stamp.\<close>

record call_env =
  env_post :: "http_request \<Rightarrow> http_result"
  env_t_check :: time
  env_t_store :: time
  env_t_stamp :: time

text \<open>The exceptions that reach the outer handler of a caller, which answers with
  \<^verbatim>\<open>{"error": str(e), "timestamp": ...}\<close>; the text of the exception is abridged to a label.\<close>

datatype caller_error = StatisticsRaised | NotSerialisable | ResponseNotText | DecodedNotDict

fun error_text :: "caller_error \<Rightarrow> string" where
  "error_text StatisticsRaised = ''statistics''"
| "error_text NotSerialisable = ''not JSON serializable''"
| "error_text ResponseNotText = ''the JSON object must be str, bytes or bytearray''"
| "error_text DecodedNotDict = ''item assignment''"

definition error_result :: "pylib \<Rightarrow> call_env \<Rightarrow> caller_error \<Rightarrow> json" where
  "error_result lib env e =
     JObj [(''error'', JStr (error_text e)), (''timestamp'', JStr (lib_isoformat lib (env_t_stamp env)))]"

text \<open>The prompts. Line breaks and indentation of the source literals are written as single
  spaces.\<close>

definition lead_messages :: "pylib \<Rightarrow> json \<Rightarrow> string \<Rightarrow> chat_message list option" where
  "lead_messages lib data_summary project_type =
     do {
       dumped \<leftarrow> lib_json_dumps lib data_summary;
       Some [(''system'',
              ''Sei un esperto analista di lead per il progetto '' @ lib_upper lib project_type
              @ ''. Analizza i dati forniti e fornisci insights dettagliati, previsioni e raccomandazioni strategiche. Rispondi in italiano, formato JSON strutturato.''),
             (''user'',
              ''Analizza questi dati lead per il progetto '' @ lib_upper lib project_type @ '': ''
              @ dumped
              @ '' Fornisci: 1. Analisi delle performance 2. Trend identificati 3. Previsioni per i prossimi 30 giorni 4. Raccomandazioni strategiche 5. Aree di miglioramento Formato JSON con sezioni: analysis, trends, predictions, recommendations, improvements'')]
     }"

definition cpa_messages :: "pylib \<Rightarrow> json \<Rightarrow> string \<Rightarrow> chat_message list option" where
  "cpa_messages lib metrics project_type =
     do {
       dumped \<leftarrow> lib_json_dumps lib metrics;
       Some [(''system'',
              ''Sei un esperto finanziario per il progetto '' @ lib_upper lib project_type
              @ ''. Calcola metriche avanzate, ROI, previsioni finanziarie e analisi di performance. Rispondi in italiano, formato JSON strutturato.''),
             (''user'',
              ''Calcola metriche avanzate CPA per il progetto '' @ lib_upper lib project_type @ '': ''
              @ dumped
              @ '' Calcola: 1. ROI per broker 2. Previsioni di crescita 3. Analisi di rischio 4. Ottimizzazione budget 5. Raccomandazioni strategiche Formato JSON con sezioni: roi_analysis, growth_projections, risk_assessment, budget_optimization, strategic_recommendations'')]
     }"

definition broker_messages :: "pylib \<Rightarrow> json \<Rightarrow> string \<Rightarrow> chat_message list option" where
  "broker_messages lib analysis project_type =
     do {
       dumped \<leftarrow> lib_json_dumps lib analysis;
       Some [(''system'',
              ''Sei un esperto di mercati finanziari per il progetto '' @ lib_upper lib project_type
              @ ''. Analizza performance broker, trend di mercato e fornisci raccomandazioni strategiche. Rispondi in italiano, formato JSON strutturato.''),
             (''user'',
              ''Analizza performance broker per il progetto '' @ lib_upper lib project_type @ '': ''
              @ dumped
              @ '' Fornisci: 1. Ranking broker dettagliato 2. Analisi di mercato 3. Previsioni trend 4. Raccomandazioni di investimento 5. Gestione del rischio Formato JSON con sezioni: broker_rankings, market_analysis, trend_predictions, investment_recommendations, risk_management'')]
     }"

text \<open>The statistics each caller computes before the call, in the order of the source's
  dictionary literal; \<open>None\<close> when a step raises.\<close>

definition lead_data_summary :: "pylib \<Rightarrow> dataframe \<Rightarrow> json option" where
  "lead_data_summary lib lead_data =
     do {
       lo \<leftarrow> (if ''data_registrazione'' \<in> set (columns lead_data)
              then lib_pd lib ''data_registrazione.min'' lead_data else Some JNull);
       hi \<leftarrow> (if ''data_registrazione'' \<in> set (columns lead_data)
              then lib_pd lib ''data_registrazione.max'' lead_data else Some JNull);
       top_sources \<leftarrow> get_top_sources (lib_pd lib) lead_data;
       trends \<leftarrow> analyze_trends (lib_pd lib) lead_data;
       Some (JObj [(''total_leads'', JNum (of_nat (length (rows lead_data)))),
                   (''columns'', JArr (map JStr (columns lead_data))),
                   (''date_range'', JObj [(''start'', lo), (''end'', hi)]),
                   (''conversion_rate'', JNum (calculate_conversion_rate lead_data)),
                   (''top_sources'', top_sources),
                   (''trends'', trends)])
     }"

definition cpa_basic_metrics :: "pylib \<Rightarrow> dataframe \<Rightarrow> json option" where
  "cpa_basic_metrics lib cpa_data =
     do {
       total_deposits \<leftarrow> (if ''deposito'' \<in> set (columns cpa_data)
              then lib_pd lib ''deposito.sum'' cpa_data else Some (JNum 0));
       average_deposit \<leftarrow> (if ''deposito'' \<in> set (columns cpa_data)
              then lib_pd lib ''deposito.mean'' cpa_data else Some (JNum 0));
       broker_distribution \<leftarrow> get_broker_distribution (lib_pd lib) cpa_data;
       platform_analysis \<leftarrow> analyze_platforms (lib_pd lib) cpa_data;
       financial_projections \<leftarrow> calculate_financial_projections (lib_pd lib) cpa_data;
       Some (JObj [(''total_clients'', JNum (of_nat (length (rows cpa_data)))),
                   (''total_deposits'', total_deposits),
                   (''average_deposit'', average_deposit),
                   (''broker_distribution'', broker_distribution),
                   (''platform_analysis'', platform_analysis),
                   (''vps_usage'', analyze_vps_usage cpa_data),
                   (''financial_projections'', financial_projections)])
     }"

definition broker_basic_analysis :: "pylib \<Rightarrow> dataframe \<Rightarrow> json option" where
  "broker_basic_analysis lib broker_data =
     do {
       broker_rankings \<leftarrow> rank_brokers (lib_pd lib) broker_data;
       performance_metrics \<leftarrow> calculate_broker_metrics (lib_pd lib) broker_data;
       Some (JObj [(''total_brokers'', JNum (of_nat (length (rows broker_data)))),
                   (''broker_rankings'', broker_rankings),
                   (''performance_metrics'', performance_metrics),
                   (''market_analysis'', analyze_market_trends),
                   (''risk_assessment'', assess_broker_risks)])
     }"

text \<open>The fallbacks.\<close>

definition fallback_lead_analysis :: "pylib \<Rightarrow> call_env \<Rightarrow> json \<Rightarrow> json" where
  "fallback_lead_analysis lib env summary =
     JObj [(''analysis'', JStr ''Analisi base completata (AI non disponibile)''),
           (''data_summary'', summary),
           (''recommendations'',
            JArr [JStr ''Migliorare conversion rate'', JStr ''Ottimizzare fonti lead'']),
           (''timestamp'', JStr (lib_isoformat lib (env_t_stamp env)))]"

definition fallback_cpa_analysis :: "pylib \<Rightarrow> call_env \<Rightarrow> json \<Rightarrow> json" where
  "fallback_cpa_analysis lib env metrics =
     JObj [(''roi_analysis'', JStr ''Analisi ROI base completata''),
           (''basic_metrics'', metrics),
           (''recommendations'', JArr [JStr ''Ottimizzare budget'', JStr ''Migliorare ROI'']),
           (''timestamp'', JStr (lib_isoformat lib (env_t_stamp env)))]"

definition fallback_broker_analysis :: "pylib \<Rightarrow> call_env \<Rightarrow> json \<Rightarrow> json" where
  "fallback_broker_analysis lib env analysis =
     JObj [(''broker_rankings'', JStr ''Ranking base completato''),
           (''basic_analysis'', analysis),
           (''recommendations'',
            JArr [JStr ''Diversificare broker'', JStr ''Monitorare performance'']),
           (''timestamp'', JStr (lib_isoformat lib (env_t_stamp env)))]"

text \<open>\<^verbatim>\<open>self._make_api_call(messages, project_type)\<close> in the surroundings of one call.\<close>

definition call_inference ::
  "pylib \<Rightarrow> ai_settings \<Rightarrow> call_env \<Rightarrow> chat_message list \<Rightarrow> string \<Rightarrow> ai_state \<Rightarrow> json \<times> ai_state" where
  "call_inference lib cfg env messages project_type st =
     make_api_call (lib_hash_str lib) cfg (env_post env) (env_t_check env) (env_t_store env)
       messages project_type st"

text \<open>The callers. Each returns its result object and the assistant's state after the call.
  \<^verbatim>\<open>json.loads\<close> of a response that is not text raises \<^verbatim>\<open>TypeError\<close>, and so does the item
  assignment on a decoded value that is not a dictionary; both reach the outer handler.\<close>

definition analyze_lead_data ::
  "pylib \<Rightarrow> ai_settings \<Rightarrow> call_env \<Rightarrow> ai_state \<Rightarrow> dataframe \<Rightarrow> string \<Rightarrow> json \<times> ai_state" where
  "analyze_lead_data lib cfg env st lead_data project_type =
     (case lead_data_summary lib lead_data of
        None \<Rightarrow> (error_result lib env StatisticsRaised, st)
      | Some data_summary \<Rightarrow>
          (case lead_messages lib data_summary project_type of
             None \<Rightarrow> (error_result lib env NotSerialisable, st)
           | Some messages \<Rightarrow>
               (case call_inference lib cfg env messages project_type st of
                  (ai_response, st') \<Rightarrow>
                    if py_truthy ai_response then
                      (case ai_response of
                         JStr text \<Rightarrow>
                           (case lib_json_loads lib text of
                              None \<Rightarrow>
                                (JObj [(''analysis'', ai_response),
                                       (''data_summary'', data_summary),
                                       (''timestamp'', JStr (lib_isoformat lib (env_t_stamp env)))], st')
                            | Some (JObj analysis) \<Rightarrow>
                                (JObj (dict_set (dict_set analysis ''data_summary'' data_summary)
                                         ''timestamp'' (JStr (lib_isoformat lib (env_t_stamp env)))), st')
                            | Some _ \<Rightarrow> (error_result lib env DecodedNotDict, st'))
                       | _ \<Rightarrow> (error_result lib env ResponseNotText, st'))
                    else (fallback_lead_analysis lib env data_summary, st'))))"

definition calculate_cpa_metrics ::
  "pylib \<Rightarrow> ai_settings \<Rightarrow> call_env \<Rightarrow> ai_state \<Rightarrow> dataframe \<Rightarrow> string \<Rightarrow> json \<times> ai_state" where
  "calculate_cpa_metrics lib cfg env st cpa_data project_type =
     (case cpa_basic_metrics lib cpa_data of
        None \<Rightarrow> (error_result lib env StatisticsRaised, st)
      | Some metrics \<Rightarrow>
          (case cpa_messages lib metrics project_type of
             None \<Rightarrow> (error_result lib env NotSerialisable, st)
           | Some messages \<Rightarrow>
               (case call_inference lib cfg env messages project_type st of
                  (ai_response, st') \<Rightarrow>
                    if py_truthy ai_response then
                      (case ai_response of
                         JStr text \<Rightarrow>
                           (case lib_json_loads lib text of
                              None \<Rightarrow>
                                (JObj [(''advanced_analysis'', ai_response),
                                       (''basic_metrics'', metrics),
                                       (''timestamp'', JStr (lib_isoformat lib (env_t_stamp env)))], st')
                            | Some (JObj advanced_metrics) \<Rightarrow>
                                (JObj (dict_set (dict_set advanced_metrics ''basic_metrics'' metrics)
                                         ''timestamp'' (JStr (lib_isoformat lib (env_t_stamp env)))), st')
                            | Some _ \<Rightarrow> (error_result lib env DecodedNotDict, st'))
                       | _ \<Rightarrow> (error_result lib env ResponseNotText, st'))
                    else (fallback_cpa_analysis lib env metrics, st'))))"

definition analyze_broker_performance ::
  "pylib \<Rightarrow> ai_settings \<Rightarrow> call_env \<Rightarrow> ai_state \<Rightarrow> dataframe \<Rightarrow> string \<Rightarrow> json \<times> ai_state" where
  "analyze_broker_performance lib cfg env st broker_data project_type =
     (case broker_basic_analysis lib broker_data of
        None \<Rightarrow> (error_result lib env StatisticsRaised, st)
      | Some analysis \<Rightarrow>
          (case broker_messages lib analysis project_type of
             None \<Rightarrow> (error_result lib env NotSerialisable, st)
           | Some messages \<Rightarrow>
               (case call_inference lib cfg env messages project_type st of
                  (ai_response, st') \<Rightarrow>
                    if py_truthy ai_response then
                      (case ai_response of
                         JStr text \<Rightarrow>
                           (case lib_json_loads lib text of
                              None \<Rightarrow>
                                (JObj [(''advanced_analysis'', ai_response),
                                       (''basic_analysis'', analysis),
                                       (''timestamp'', JStr (lib_isoformat lib (env_t_stamp env)))], st')
                            | Some (JObj advanced_analysis) \<Rightarrow>
                                (JObj (dict_set (dict_set advanced_analysis ''basic_analysis'' analysis)
                                         ''timestamp'' (JStr (lib_isoformat lib (env_t_stamp env)))), st')
                            | Some _ \<Rightarrow> (error_result lib env DecodedNotDict, st'))
                       | _ \<Rightarrow> (error_result lib env ResponseNotText, st'))
                    else (fallback_broker_analysis lib env analysis, st'))))"

section \<open>Example data\<close>

text \<open>A digest function with a constant result of 64 characters, a salt of 32 hexadecimal
  characters, and a 64-character hexadecimal string that is the digest of nothing.\<close>

definition zero_digest :: "string \<Rightarrow> string" where
  "zero_digest s = ''0000000000000000000000000000000000000000000000000000000000000000''"

definition sample_salt :: string where
  "sample_salt = ''0123456789abcdef0123456789abcdef''"

definition dead_beef :: string where
  "dead_beef = ''deadbeefdeadbeefdeadbeefdeadbeefdeadbeefdeadbeefdeadbeefdeadbeef''"

text \<open>A user row and three tenant stores, the second of which holds the row; the stored
  hash is of the plaintext form.\<close>

definition example_row :: row where
  "example_row = [(''id'', JNum 7), (''username'', JStr ''mario''),
     (''password_hash'', JStr ''segreto''), (''first_name'', JStr ''Mario''),
     (''role'', JStr ''admin'')]"

definition example_stores :: "store list" where
  "example_stores =
     [\<lambda>u. Some [],
      \<lambda>u. if u = ''mario'' then Some [example_row] else Some [],
      \<lambda>u. Some []]"

text \<open>Settings, a prompt, a network that answers every request with a given content, and
  the assistant's state at start.\<close>

definition example_settings :: ai_settings where
  "example_settings =
     \<lparr>api_key = ''sk-test'', api_url = ''https://api.example/v1/chat/completions'',
      model_name = ''deepseek-chat'', max_tokens = 1500, temperature = 7 / 10\<rparr>"

definition example_messages :: "chat_message list" where
  "example_messages = [(''system'', ''Sei un esperto''), (''user'', ''Analizza'')]"

definition reply_with :: "json \<Rightarrow> http_request \<Rightarrow> http_result" where
  "reply_with content request =
     HttpResponse 200
       (Some (JObj [(''choices'', JArr [JObj [(''message'', JObj [(''content'', content)])]])]))"

definition empty_ai_state :: ai_state where
  "empty_ai_state = \<lparr>cache = Map.empty, sent = []\<rparr>"

text \<open>Library functions for the examples: texts starting with a brace decode to the empty
  object, every statistic serialises, and pandas yields nothing.\<close>

definition example_lib :: pylib where
  "example_lib =
     \<lparr>lib_hash_str = (\<lambda>m. 42),
      lib_upper = (\<lambda>s. s),
      lib_json_dumps = (\<lambda>j. Some ''{}''),
      lib_json_loads = (\<lambda>s. if s \<noteq> [] \<and> hd s = CHR ''{'' then Some (JObj []) else None),
      lib_isoformat = (\<lambda>t. ''2024-01-01T00:00:00''),
      lib_pd = (\<lambda>e d. Some JNull)\<rparr>"

definition env_with :: "(http_request \<Rightarrow> http_result) \<Rightarrow> call_env" where
  "env_with net = \<lparr>env_post = net, env_t_check = 0, env_t_store = 0, env_t_stamp = 0\<rparr>"

text \<open>A frame of 100 leads, 37 of them converted, and a frame of clients.\<close>

definition lead_frame :: dataframe where
  "lead_frame =
     \<lparr>columns = [''nome'', ''stato''],
      rows = replicate 37 [(''nome'', JStr ''a''), (''stato'', JStr ''converted'')]
             @ replicate 63 [(''nome'', JStr ''b''), (''stato'', JStr ''new'')]\<rparr>"

definition client_frame :: dataframe where
  "client_frame = \<lparr>columns = [''nome''], rows = [[(''nome'', JStr ''c'')]]\<rparr>"

section \<open>Facts about the string helpers\<close>

lemma split_once_at_first:
  assumes "d \<notin> set a"
  shows "split_once d (a @ d # b) = [a, b]"
proof -
  have "takeWhile (\<lambda>c. c \<noteq> d) (a @ d # b) = a"
    using assms by (induction a) auto
  moreover have "dropWhile (\<lambda>c. c \<noteq> d) (a @ d # b) = d # b"
    using assms by (induction a) auto
  ultimately show ?thesis
    by (simp add: split_once_def)
qed

lemma startswith_hd:
  "startswith s (p # ps) \<Longrightarrow> s \<noteq> [] \<and> hd s = p"
  by (cases s) auto

lemma dollar_not_hex: "CHR ''$'' \<notin> hexdigits"
  by (simp add: hexdigits_def)

section \<open>Claims about password verification\<close>

text \<open>
  Claim C1. \<open>verify_password\<close> tries the stored-hash encodings in a fixed order:
  (a) a stored hash starting with \<^verbatim>\<open>$2b$\<close> is decided by the bcrypt check (a raise counts as
  a mismatch); (b) otherwise a stored hash equal to the password is accepted; (c) otherwise a
  stored hash \<open>salt$digest\<close> longer than 50 characters is accepted exactly when
  \<open>sha256 (password + salt) = digest\<close>, the salt being the text before the first \<^verbatim>\<open>$\<close>;
  (d) otherwise a stored hash of length 64 is accepted exactly when it is \<open>sha256 password\<close>;
  (e) otherwise the result is plain equality. In particular a 64-character hexadecimal stored
  hash that is neither the password nor its digest is rejected.
\<close>

theorem verify_password_precedence:
  "(startswith h ''$2b$'' \<longrightarrow>
      verify_password ck sh p h = (ck p h = Some True))
   \<and> (\<not> startswith h ''$2b$'' \<and> h = p \<longrightarrow> verify_password ck sh p h)
   \<and> (\<not> startswith h ''$2b$'' \<and> h \<noteq> p \<and> h = salt @ ''$'' @ digest \<and> CHR ''$'' \<notin> set salt
        \<and> length h > 50 \<longrightarrow>
      verify_password ck sh p h = (sh (p @ salt) = digest))
   \<and> (\<not> startswith h ''$2b$'' \<and> h \<noteq> p \<and> \<not> (CHR ''$'' \<in> set h \<and> length h > 50)
        \<and> length h = 64 \<longrightarrow>
      verify_password ck sh p h = (sh p = h))
   \<and> (\<not> startswith h ''$2b$'' \<and> h \<noteq> p \<and> \<not> (CHR ''$'' \<in> set h \<and> length h > 50)
        \<and> length h \<noteq> 64 \<longrightarrow>
      verify_password ck sh p h = (p = h))
   \<and> (length h = 64 \<and> set h \<subseteq> hexdigits \<and> h \<noteq> p \<and> sh p \<noteq> h \<longrightarrow>
      \<not> verify_password ck sh p h)"
proof (intro conjI impI)
  assume "startswith h ''$2b$''"
  then show "verify_password ck sh p h = (ck p h = Some True)"
    by (cases "ck p h") (auto simp: verify_password_def)
next
  assume "\<not> startswith h ''$2b$'' \<and> h = p"
  then show "verify_password ck sh p h"
    by (auto simp: verify_password_def)
next
  assume a: "\<not> startswith h ''$2b$'' \<and> h \<noteq> p \<and> h = salt @ ''$'' @ digest \<and> CHR ''$'' \<notin> set salt
        \<and> length h > 50"
  then have sp: "split_once (CHR ''$'') h = [salt, digest]"
    using split_once_at_first [of "CHR ''$''" salt digest] by simp
  have mem: "CHR ''$'' \<in> set h" using a by simp
  have n1: "\<not> startswith h ''$2b$''" and n2: "h \<noteq> p" and len: "length h > 50"
    using a by blast+
  show "verify_password ck sh p h = (sh (p @ salt) = digest)"
    unfolding verify_password_def using sp mem n1 n2 len by simp
next
  assume "\<not> startswith h ''$2b$'' \<and> h \<noteq> p \<and> \<not> (CHR ''$'' \<in> set h \<and> length h > 50)
        \<and> length h = 64"
  then show "verify_password ck sh p h = (sh p = h)"
    by (auto simp: verify_password_def)
next
  assume "\<not> startswith h ''$2b$'' \<and> h \<noteq> p \<and> \<not> (CHR ''$'' \<in> set h \<and> length h > 50)
        \<and> length h \<noteq> 64"
  then show "verify_password ck sh p h = (p = h)"
    by (auto simp: verify_password_def)
next
  assume a: "length h = 64 \<and> set h \<subseteq> hexdigits \<and> h \<noteq> p \<and> sh p \<noteq> h"
  then have nd: "CHR ''$'' \<notin> set h"
    using dollar_not_hex by blast
  have "\<not> startswith h ''$2b$''"
  proof
    assume "startswith h ''$2b$''"
    then have "h \<noteq> [] \<and> hd h = CHR ''$''" by (rule startswith_hd)
    then have "CHR ''$'' \<in> set h" by (cases h) auto
    with nd show False by simp
  qed
  with a nd show "\<not> verify_password ck sh p h"
    by (simp add: verify_password_def)
qed

text \<open>The precedence theorem at concrete inputs, one for each rule, with a constant
  function standing for the digest.\<close>

theorem verify_password_precedence_witness:
  "verify_password (\<lambda>p h. Some True) zero_digest ''secret'' ''$2b$12$abcdefghijklmnopqrstuv''
   \<and> \<not> verify_password (\<lambda>p h. None) zero_digest ''secret'' ''$2b$12$abcdefghijklmnopqrstuv''
   \<and> verify_password (\<lambda>p h. None) zero_digest ''admin123'' ''admin123''
   \<and> verify_password (\<lambda>p h. None) zero_digest ''secret'' (sample_salt @ ''$'' @ (zero_digest []))
   \<and> \<not> verify_password (\<lambda>p h. None) zero_digest ''secret'' (sample_salt @ ''$'' @ dead_beef)
   \<and> verify_password (\<lambda>p h. None) zero_digest ''secret'' (zero_digest [])
   \<and> \<not> verify_password (\<lambda>p h. None) zero_digest ''secret'' ''plain''
   \<and> \<not> verify_password (\<lambda>p h. None) zero_digest ''wrong'' dead_beef"
  using
    verify_password_precedence [of "''$2b$12$abcdefghijklmnopqrstuv''" "\<lambda>p h. Some True" zero_digest "''secret''"]
    verify_password_precedence [of "''$2b$12$abcdefghijklmnopqrstuv''" "\<lambda>p h. None" zero_digest "''secret''"]
    verify_password_precedence [of "''admin123''" "\<lambda>p h. None" zero_digest "''admin123''"]
    verify_password_precedence [of "sample_salt @ ''$'' @ (zero_digest [])" "\<lambda>p h. None" zero_digest "''secret''" sample_salt "zero_digest []"]
    verify_password_precedence [of "sample_salt @ ''$'' @ dead_beef" "\<lambda>p h. None" zero_digest "''secret''" sample_salt dead_beef]
    verify_password_precedence [of "zero_digest []" "\<lambda>p h. None" zero_digest "''secret''"]
    verify_password_precedence [of "''plain''" "\<lambda>p h. None" zero_digest "''secret''"]
    verify_password_precedence [of dead_beef "\<lambda>p h. None" zero_digest "''wrong''"]
  by (simp add: hexdigits_def zero_digest_def sample_salt_def dead_beef_def)

text \<open>
  Claim C10. Hashing then verifying succeeds: for a salt of 32 hexadecimal characters and a
  digest function whose results have 64 characters, \<open>hash_password\<close> yields a string of
  length 97 that does not carry the \<^verbatim>\<open>$2b$\<close> marker, that either equals the password or
  splits at its first \<^verbatim>\<open>$\<close> into the salt and the digest, and that \<open>verify_password\<close>
  accepts for the same password.
\<close>

theorem hash_password_roundtrip:
  assumes salt_len: "length salt = 32"
    and salt_hex: "set salt \<subseteq> hexdigits"
    and digest_len: "\<forall>s. length (sh s) = 64"
  shows "length (hash_password sh salt p) = 97
    \<and> \<not> startswith (hash_password sh salt p) ''$2b$''
    \<and> (hash_password sh salt p = p
        \<or> split_once (CHR ''$'') (hash_password sh salt p) = [salt, sh (p @ salt)])
    \<and> verify_password ck sh p (hash_password sh salt p)"
proof -
  let ?h = "hash_password sh salt p"
  have h: "?h = salt @ CHR ''$'' # sh (p @ salt)"
    by (simp add: hash_password_def)
  have nd: "CHR ''$'' \<notin> set salt"
    using salt_hex dollar_not_hex by blast
  have len: "length ?h = 97"
    using salt_len digest_len by (simp add: h)
  have sp: "split_once (CHR ''$'') ?h = [salt, sh (p @ salt)]"
    unfolding h using nd by (rule split_once_at_first)
  have nsw: "\<not> startswith ?h ''$2b$''"
  proof
    assume "startswith ?h ''$2b$''"
    then have "?h \<noteq> [] \<and> hd ?h = CHR ''$''" by (rule startswith_hd)
    moreover have "salt \<noteq> []" using salt_len by auto
    ultimately have "hd salt = CHR ''$''" by (simp add: h)
    with \<open>salt \<noteq> []\<close> have "CHR ''$'' \<in> set salt" by (cases salt) auto
    with nd show False by simp
  qed
  have mem: "CHR ''$'' \<in> set ?h" by (simp add: h)
  have "verify_password ck sh p ?h"
    unfolding verify_password_def using nsw sp mem len by simp
  with len nsw sp show ?thesis by simp
qed

theorem hash_password_roundtrip_witness:
  "length sample_salt = 32 \<and> set sample_salt \<subseteq> hexdigits
   \<and> (\<forall>s. length (zero_digest s) = 64)
   \<and> verify_password (\<lambda>p h. None) zero_digest ''secret''
        (hash_password zero_digest sample_salt ''secret'')"
  using hash_password_roundtrip [of sample_salt zero_digest "''secret''" "\<lambda>p h. None"]
  by (simp add: hexdigits_def zero_digest_def sample_salt_def)

section \<open>Facts about the session counters and the tenant search\<close>

lemma login_attempts_failed:
  "login_attempts (failed_attempts k t st) = login_attempts st + int k"
  by (induction k) (simp_all add: increment_login_attempts_def)

lemma last_failed:
  "0 < k \<Longrightarrow> last_login_attempt (failed_attempts k t st) = Some t"
  by (cases k) (simp_all add: increment_login_attempts_def)

lemma last_failed0:
  "last_login_attempt (failed_attempts k t init_session_state) = (if k = 0 then None else Some t)"
  by (cases k) (simp_all add: increment_login_attempts_def init_session_state_def)

lemma attempts_failed0:
  "login_attempts (failed_attempts k t init_session_state) = int k"
  by (simp add: login_attempts_failed init_session_state_def)

lemma search_first:
  "lead_db u = Some (r # rs) \<Longrightarrow>
   search_stores (db_managers lead_db cpa_db prop_db) u = (Some (r, ''lead''), [''lead''])"
  by (simp add: db_managers_def)

lemma search_second:
  "lead_db u = Some [] \<Longrightarrow> cpa_db u = Some (r # rs) \<Longrightarrow>
   search_stores (db_managers lead_db cpa_db prop_db) u = (Some (r, ''cpa''), [''lead'', ''cpa''])"
  by (simp add: db_managers_def)

lemma search_third:
  "lead_db u = Some [] \<Longrightarrow> cpa_db u = Some [] \<Longrightarrow> prop_db u = Some (r # rs) \<Longrightarrow>
   search_stores (db_managers lead_db cpa_db prop_db) u =
     (Some (r, ''prop''), [''lead'', ''cpa'', ''prop''])"
  by (simp add: db_managers_def)

lemma search_none:
  "lead_db u = Some [] \<Longrightarrow> cpa_db u = Some [] \<Longrightarrow> prop_db u = Some [] \<Longrightarrow>
   search_stores (db_managers lead_db cpa_db prop_db) u = (None, [''lead'', ''cpa'', ''prop''])"
  by (simp add: db_managers_def)

lemma authenticate_found:
  assumes "check_rate_limit cfg now st"
    and "search_stores dbs u = (Some (r, tag), tr)"
    and "r \<noteq> []" and "verify_stored ck sh pw r"
  shows "authenticate_user ck sh fmt cfg dbs now st u pw =
     \<lparr>success = True, msg = Welcome (dict_get_default r ''first_name'' (JStr u)),
      user_record = r,
      session = set_user_session fmt now r tag (reset_login_attempts st),
      queried = tr\<rparr>"
  using assms by (simp add: authenticate_user_def)

lemma session_after_login:
  "login_attempts (set_user_session fmt now r tag (reset_login_attempts st)) = 0
   \<and> last_login_attempt (set_user_session fmt now r tag (reset_login_attempts st)) = None
   \<and> authenticated (set_user_session fmt now r tag (reset_login_attempts st))
   \<and> current_project (set_user_session fmt now r tag (reset_login_attempts st)) = tag
   \<and> dict_get (user_info (set_user_session fmt now r tag (reset_login_attempts st))) ''project_type''
       = JStr tag"
  by (simp add: set_user_session_def reset_login_attempts_def dict_get_def)

lemma rejected_any_session:
  assumes rej: "\<not> success (authenticate_user ck sh fmt cfg dbs t0 st0 u pw)"
    and ok0: "check_rate_limit cfg t0 st0"
    and ok: "check_rate_limit cfg now st"
  shows "\<not> success (authenticate_user ck sh fmt cfg dbs now st u pw)
    \<and> msg (authenticate_user ck sh fmt cfg dbs now st u pw) \<noteq> TooManyAttempts
    \<and> session (authenticate_user ck sh fmt cfg dbs now st u pw)
        = st\<lparr>login_attempts := login_attempts st + 1, last_login_attempt := Some now\<rparr>"
  using assms
  by (auto simp: authenticate_user_def increment_login_attempts_def
      split: prod.splits option.splits if_splits)

lemma denied_outcome:
  "\<not> check_rate_limit cfg now st \<Longrightarrow>
   authenticate_user ck sh fmt cfg dbs now st u pw =
     \<lparr>success = False, msg = TooManyAttempts, user_record = [], session = st, queried = []\<rparr>"
  by (simp add: authenticate_user_def)

lemma init_allowed: "0 < N \<Longrightarrow> cfg ''max_login_attempts'' = Some (int N) \<Longrightarrow>
  check_rate_limit cfg t init_session_state"
  by (simp add: check_rate_limit_def config_get_def init_session_state_def)

lemma repeat_login_failed:
  assumes cfg: "cfg ''max_login_attempts'' = Some (int N)" and N: "0 < N"
    and rej: "\<not> success (authenticate_user ck sh fmt cfg dbs t init_session_state u pw)"
  shows "repeat_login ck sh fmt cfg dbs t u pw k init_session_state
           = failed_attempts (min k N) t init_session_state"
proof (induction k)
  case 0
  show ?case by simp
next
  case (Suc k)
  let ?s = "failed_attempts (min k N) t init_session_state"
  have ok0: "check_rate_limit cfg t init_session_state"
    using N cfg by (rule init_allowed)
  show ?case
  proof (cases "k < N")
    case True
    then have ok: "check_rate_limit cfg t ?s"
      using cfg by (simp add: check_rate_limit_def config_get_def attempts_failed0)
    have "session (authenticate_user ck sh fmt cfg dbs t ?s u pw)
        = ?s\<lparr>login_attempts := login_attempts ?s + 1, last_login_attempt := Some t\<rparr>"
      using rejected_any_session [OF rej ok0 ok] by simp
    then have "session (authenticate_user ck sh fmt cfg dbs t ?s u pw) = increment_login_attempts t ?s"
      by (simp add: increment_login_attempts_def)
    moreover have "min (Suc k) N = Suc (min k N)" using True by simp
    ultimately show ?thesis using Suc by simp
  next
    case False
    then have m: "min k N = N" "min (Suc k) N = N" by simp_all
    have "\<not> check_rate_limit cfg t (failed_attempts N t init_session_state)"
      using cfg N by (simp add: check_rate_limit_def config_get_def attempts_failed0 last_failed0
          timedelta_minutes_def)
    then have "session (authenticate_user ck sh fmt cfg dbs t (failed_attempts N t init_session_state) u pw)
        = failed_attempts N t init_session_state"
      by (simp add: denied_outcome)
    then show ?thesis using Suc by (simp add: m)
  qed
qed

lemma nobody_rejected:
  "\<not> success (authenticate_user ck sh fmt cfg
       (db_managers (\<lambda>x. Some []) (\<lambda>x. Some []) (\<lambda>x. Some [])) t st u pw)"
  by (simp add: authenticate_user_def db_managers_def)

lemma init_max: "init_auth_config ''max_login_attempts'' = Some (int 3)"
  by (simp add: init_auth_config_def)

section \<open>Claims about rate limiting and authentication\<close>

text \<open>
  Claim C3, as stated, has the limiter deny the \<open>N\<close>-th attempt. With the configured maximum
  of 3 and a fixed clock, the third login attempt in a row still passes the limiter (two
  failures are recorded then): it is answered with user-not-found after all three stores were
  queried. Only the fourth attempt is answered with the lockout message.
\<close>

theorem third_attempt_allowed:
  "check_rate_limit init_auth_config 0
     (repeat_login (\<lambda>p h. None) (\<lambda>s. []) (\<lambda>t. []) init_auth_config
        (db_managers (\<lambda>x. Some []) (\<lambda>x. Some []) (\<lambda>x. Some [])) 0 ''mario'' ''pw'' 2
        init_session_state)
   \<and> msg (authenticate_user (\<lambda>p h. None) (\<lambda>s. []) (\<lambda>t. []) init_auth_config
        (db_managers (\<lambda>x. Some []) (\<lambda>x. Some []) (\<lambda>x. Some [])) 0
        (repeat_login (\<lambda>p h. None) (\<lambda>s. []) (\<lambda>t. []) init_auth_config
           (db_managers (\<lambda>x. Some []) (\<lambda>x. Some []) (\<lambda>x. Some [])) 0 ''mario'' ''pw'' 2
           init_session_state)
        ''mario'' ''pw'') = UserNotFound
   \<and> queried (authenticate_user (\<lambda>p h. None) (\<lambda>s. []) (\<lambda>t. []) init_auth_config
        (db_managers (\<lambda>x. Some []) (\<lambda>x. Some []) (\<lambda>x. Some [])) 0
        (repeat_login (\<lambda>p h. None) (\<lambda>s. []) (\<lambda>t. []) init_auth_config
           (db_managers (\<lambda>x. Some []) (\<lambda>x. Some []) (\<lambda>x. Some [])) 0 ''mario'' ''pw'' 2
           init_session_state)
        ''mario'' ''pw'') = [''lead'', ''cpa'', ''prop'']
   \<and> msg (authenticate_user (\<lambda>p h. None) (\<lambda>s. []) (\<lambda>t. []) init_auth_config
        (db_managers (\<lambda>x. Some []) (\<lambda>x. Some []) (\<lambda>x. Some [])) 0
        (repeat_login (\<lambda>p h. None) (\<lambda>s. []) (\<lambda>t. []) init_auth_config
           (db_managers (\<lambda>x. Some []) (\<lambda>x. Some []) (\<lambda>x. Some [])) 0 ''mario'' ''pw'' 3
           init_session_state)
        ''mario'' ''pw'') = TooManyAttempts"
proof -
  let ?dbs = "db_managers (\<lambda>x. Some []) (\<lambda>x. Some []) (\<lambda>x. Some [])"
  have r: "repeat_login (\<lambda>p h. None) (\<lambda>s. []) (\<lambda>t. []) init_auth_config ?dbs 0 ''mario'' ''pw'' k
        init_session_state = failed_attempts (min k 3) 0 init_session_state" for k
    by (rule repeat_login_failed) (simp_all add: init_auth_config_def nobody_rejected)
  have two: "check_rate_limit init_auth_config 0 (failed_attempts 2 0 init_session_state)"
    by (simp add: check_rate_limit_def config_get_def init_max [simplified] attempts_failed0)
  have three: "\<not> check_rate_limit init_auth_config 0 (failed_attempts 3 0 init_session_state)"
    by (simp add: check_rate_limit_def config_get_def init_max [simplified] attempts_failed0
        last_failed0 timedelta_minutes_def)
  show ?thesis
    unfolding r using two three
    by (simp add: authenticate_user_def db_managers_def)
qed

text \<open>
  Claim C3, amended. With a fixed clock \<open>t\<close>, a configured maximum of \<open>N \<ge> 1\<close> consecutive
  failures and credentials that are rejected, \<open>check_rate_limit\<close> allows attempts \<open>1..N\<close>, each
  of which is recorded as a failure; it denies attempt \<open>N + 1\<close> and every later attempt, the
  counter staying at \<open>N\<close>, as long as fewer than 15 minutes have passed since the last
  recorded failure; and it allows again as soon as 15 minutes have passed. While it denies,
  \<open>authenticate_user\<close> returns the lockout failure, leaves the session as it is and queries no
  tenant store.
\<close>

theorem rate_limit_attempts:
  assumes cfg: "cfg ''max_login_attempts'' = Some (int N)" and N: "0 < N"
    and rej: "\<not> success (authenticate_user ck sh fmt cfg dbs t init_session_state u pw)"
  shows "(1 \<le> a \<and> a \<le> N \<longrightarrow>
        check_rate_limit cfg t (repeat_login ck sh fmt cfg dbs t u pw (a - 1) init_session_state)
        \<and> login_attempts (repeat_login ck sh fmt cfg dbs t u pw (a - 1) init_session_state) = int a - 1
        \<and> msg (authenticate_user ck sh fmt cfg dbs t
                 (repeat_login ck sh fmt cfg dbs t u pw (a - 1) init_session_state) u pw)
            \<noteq> TooManyAttempts
        \<and> login_attempts (repeat_login ck sh fmt cfg dbs t u pw a init_session_state) = int a)
    \<and> (N < a \<and> now - t < timedelta_minutes 15 \<longrightarrow>
        \<not> check_rate_limit cfg now (repeat_login ck sh fmt cfg dbs t u pw (a - 1) init_session_state)
        \<and> login_attempts (repeat_login ck sh fmt cfg dbs t u pw (a - 1) init_session_state) = int N)
    \<and> (N < a \<and> timedelta_minutes 15 \<le> now - t \<longrightarrow>
        check_rate_limit cfg now (repeat_login ck sh fmt cfg dbs t u pw (a - 1) init_session_state))
    \<and> (\<not> check_rate_limit cfg now st \<longrightarrow>
        authenticate_user ck sh fmt cfg dbs now st u pw =
          \<lparr>success = False, msg = TooManyAttempts, user_record = [], session = st, queried = []\<rparr>)"
proof (intro conjI; rule impI)
  assume a: "1 \<le> a \<and> a \<le> N"
  let ?s = "repeat_login ck sh fmt cfg dbs t u pw (a - 1) init_session_state"
  have "min (a - 1) N = a - 1" using a by (auto simp: min_def)
  then have s: "?s = failed_attempts (a - 1) t init_session_state"
    by (simp add: repeat_login_failed [OF cfg N rej])
  have ok0: "check_rate_limit cfg t init_session_state"
    using N cfg by (rule init_allowed)
  have "min a N = a" using a by (auto simp: min_def)
  then have s': "repeat_login ck sh fmt cfg dbs t u pw a init_session_state
      = failed_attempts a t init_session_state"
    by (simp add: repeat_login_failed [OF cfg N rej])
  have ok: "check_rate_limit cfg t ?s"
    unfolding s using a cfg by (auto simp: check_rate_limit_def config_get_def attempts_failed0)
  have n: "login_attempts ?s = int a - 1"
    unfolding s using a by (auto simp: attempts_failed0 of_nat_diff)
  have m: "msg (authenticate_user ck sh fmt cfg dbs t ?s u pw) \<noteq> TooManyAttempts"
    using rejected_any_session [OF rej ok0 ok] by simp
  have n': "login_attempts (repeat_login ck sh fmt cfg dbs t u pw a init_session_state) = int a"
    by (simp add: s' attempts_failed0)
  show "check_rate_limit cfg t ?s \<and> login_attempts ?s = int a - 1
        \<and> msg (authenticate_user ck sh fmt cfg dbs t ?s u pw) \<noteq> TooManyAttempts
        \<and> login_attempts (repeat_login ck sh fmt cfg dbs t u pw a init_session_state) = int a"
    using ok n m n' by simp
next
  assume a: "N < a \<and> now - t < timedelta_minutes 15"
  let ?s = "repeat_login ck sh fmt cfg dbs t u pw (a - 1) init_session_state"
  have "min (a - 1) N = N" using a by (auto simp: min_def)
  then have s: "?s = failed_attempts N t init_session_state"
    by (simp add: repeat_login_failed [OF cfg N rej])
  show "\<not> check_rate_limit cfg now ?s \<and> login_attempts ?s = int N"
    unfolding s using a cfg N
    by (auto simp: check_rate_limit_def config_get_def attempts_failed0 last_failed0)
next
  assume a: "N < a \<and> timedelta_minutes 15 \<le> now - t"
  let ?s = "repeat_login ck sh fmt cfg dbs t u pw (a - 1) init_session_state"
  have "min (a - 1) N = N" using a by (auto simp: min_def)
  then have s: "?s = failed_attempts N t init_session_state"
    by (simp add: repeat_login_failed [OF cfg N rej])
  show "check_rate_limit cfg now ?s"
    unfolding s using a by (auto simp: check_rate_limit_def last_failed0)
next
  assume "\<not> check_rate_limit cfg now st"
  then show "authenticate_user ck sh fmt cfg dbs now st u pw =
      \<lparr>success = False, msg = TooManyAttempts, user_record = [], session = st, queried = []\<rparr>"
    by (rule denied_outcome)
qed

theorem rate_limit_attempts_witness:
  "init_auth_config ''max_login_attempts'' = Some (int 3) \<and> (0::nat) < 3
   \<and> \<not> success (authenticate_user (\<lambda>p h. None) (\<lambda>s. []) (\<lambda>t. []) init_auth_config
        (db_managers (\<lambda>x. Some []) (\<lambda>x. Some []) (\<lambda>x. Some [])) 0 init_session_state
        ''mario'' ''pw'')
   \<and> check_rate_limit init_auth_config 0
        (repeat_login (\<lambda>p h. None) (\<lambda>s. []) (\<lambda>t. []) init_auth_config
           (db_managers (\<lambda>x. Some []) (\<lambda>x. Some []) (\<lambda>x. Some [])) 0 ''mario'' ''pw'' (3 - 1)
           init_session_state)
   \<and> login_attempts
        (repeat_login (\<lambda>p h. None) (\<lambda>s. []) (\<lambda>t. []) init_auth_config
           (db_managers (\<lambda>x. Some []) (\<lambda>x. Some []) (\<lambda>x. Some [])) 0 ''mario'' ''pw'' 3
           init_session_state) = 3
   \<and> \<not> check_rate_limit init_auth_config 899999999
        (repeat_login (\<lambda>p h. None) (\<lambda>s. []) (\<lambda>t. []) init_auth_config
           (db_managers (\<lambda>x. Some []) (\<lambda>x. Some []) (\<lambda>x. Some [])) 0 ''mario'' ''pw'' (4 - 1)
           init_session_state)
   \<and> \<not> check_rate_limit init_auth_config 899999999
        (repeat_login (\<lambda>p h. None) (\<lambda>s. []) (\<lambda>t. []) init_auth_config
           (db_managers (\<lambda>x. Some []) (\<lambda>x. Some []) (\<lambda>x. Some [])) 0 ''mario'' ''pw'' (7 - 1)
           init_session_state)
   \<and> check_rate_limit init_auth_config 900000000
        (repeat_login (\<lambda>p h. None) (\<lambda>s. []) (\<lambda>t. []) init_auth_config
           (db_managers (\<lambda>x. Some []) (\<lambda>x. Some []) (\<lambda>x. Some [])) 0 ''mario'' ''pw'' (4 - 1)
           init_session_state)
   \<and> queried (authenticate_user (\<lambda>p h. None) (\<lambda>s. []) (\<lambda>t. []) init_auth_config
        (db_managers (\<lambda>x. Some []) (\<lambda>x. Some []) (\<lambda>x. Some [])) 899999999
        (repeat_login (\<lambda>p h. None) (\<lambda>s. []) (\<lambda>t. []) init_auth_config
           (db_managers (\<lambda>x. Some []) (\<lambda>x. Some []) (\<lambda>x. Some [])) 0 ''mario'' ''pw'' (4 - 1)
           init_session_state)
        ''mario'' ''pw'') = []"
proof -
  let ?dbs = "db_managers (\<lambda>x. Some []) (\<lambda>x. Some []) (\<lambda>x. Some [])"
  have N: "(0::nat) < 3" by simp
  have rej: "\<not> success (authenticate_user (\<lambda>p h. None) (\<lambda>s. []) (\<lambda>t. []) init_auth_config
        ?dbs 0 init_session_state ''mario'' ''pw'')"
    by (rule nobody_rejected)
  note inst = rate_limit_attempts [where cfg = init_auth_config and N = 3 and t = 0
      and ck = "\<lambda>p h. None" and sh = "\<lambda>s. []" and fmt = "\<lambda>t. []" and dbs = ?dbs
      and u = "''mario''" and pw = "''pw''", OF init_max N rej]
  show ?thesis
    using init_max rej
      inst [where a = 3 and now = 0 and st = init_session_state]
      inst [where a = 4 and now = 899999999
        and st = "repeat_login (\<lambda>p h. None) (\<lambda>s. []) (\<lambda>t. []) init_auth_config ?dbs 0
                    ''mario'' ''pw'' (4 - 1) init_session_state"]
      inst [where a = 7 and now = 899999999 and st = init_session_state]
      inst [where a = 4 and now = 900000000 and st = init_session_state]
    by (simp add: timedelta_minutes_def)
qed

text \<open>
  Claim C4. When the limiter allows and exactly one of the three tenant stores holds a row for
  the username, a non-empty row whose stored hash the password verifies against, then
  \<open>authenticate_user\<close> queries lead, cpa, prop in this order up to the store with the row and
  no further, succeeds with that row, resets the failure counter, and stamps the session with
  that store's tenant tag. When no store holds a row for the username, all three are queried,
  the call fails with the user-not-found message, and the session afterwards is the one before
  with the failure counter raised by one and the instant of the call as the last failure.
\<close>

theorem authenticate_tenant_search:
  fixes ds :: "store list"
  assumes lim: "check_rate_limit cfg now st"
  shows "let out = authenticate_user ck sh fmt cfg (db_managers (ds ! 0) (ds ! 1) (ds ! 2)) now st u pw in
     (i < 3 \<and> (ds ! i) u = Some (r # rs) \<and> (\<forall>j<3. j \<noteq> i \<longrightarrow> (ds ! j) u = Some [])
          \<and> r \<noteq> [] \<and> verify_stored ck sh pw r \<longrightarrow>
            success out \<and> user_record out = r
            \<and> queried out = take (Suc i) [''lead'', ''cpa'', ''prop'']
            \<and> login_attempts (session out) = 0 \<and> last_login_attempt (session out) = None
            \<and> authenticated (session out)
            \<and> current_project (session out) = [''lead'', ''cpa'', ''prop''] ! i
            \<and> dict_get (user_info (session out)) ''project_type''
                 = JStr ([''lead'', ''cpa'', ''prop''] ! i))
     \<and> ((\<forall>j<3. (ds ! j) u = Some []) \<longrightarrow>
            \<not> success out \<and> msg out = UserNotFound \<and> user_record out = []
            \<and> queried out = [''lead'', ''cpa'', ''prop'']
            \<and> session out
                 = st\<lparr>login_attempts := login_attempts st + 1, last_login_attempt := Some now\<rparr>)"
proof -
  define out where
    "out = authenticate_user ck sh fmt cfg (db_managers (ds ! 0) (ds ! 1) (ds ! 2)) now st u pw"
  have "(i < 3 \<and> (ds ! i) u = Some (r # rs) \<and> (\<forall>j<3. j \<noteq> i \<longrightarrow> (ds ! j) u = Some [])
          \<and> r \<noteq> [] \<and> verify_stored ck sh pw r \<longrightarrow>
            success out \<and> user_record out = r
            \<and> queried out = take (Suc i) [''lead'', ''cpa'', ''prop'']
            \<and> login_attempts (session out) = 0 \<and> last_login_attempt (session out) = None
            \<and> authenticated (session out)
            \<and> current_project (session out) = [''lead'', ''cpa'', ''prop''] ! i
            \<and> dict_get (user_info (session out)) ''project_type''
                 = JStr ([''lead'', ''cpa'', ''prop''] ! i))
     \<and> ((\<forall>j<3. (ds ! j) u = Some []) \<longrightarrow>
            \<not> success out \<and> msg out = UserNotFound \<and> user_record out = []
            \<and> queried out = [''lead'', ''cpa'', ''prop'']
            \<and> session out
                 = st\<lparr>login_attempts := login_attempts st + 1, last_login_attempt := Some now\<rparr>)"
  proof (rule conjI; rule impI)
  assume a: "i < 3 \<and> (ds ! i) u = Some (r # rs) \<and> (\<forall>j<3. j \<noteq> i \<longrightarrow> (ds ! j) u = Some [])
          \<and> r \<noteq> [] \<and> verify_stored ck sh pw r"
  then have i: "i = 0 \<or> i = 1 \<or> i = 2" by auto
  let ?tags = "[''lead'', ''cpa'', ''prop'']"
  have s: "search_stores (db_managers (ds ! 0) (ds ! 1) (ds ! 2)) u
             = (Some (r, ?tags ! i), take (Suc i) ?tags)"
  proof -
    consider "i = 0" | "i = 1" | "i = 2" using i by blast
    then show ?thesis
    proof cases
      case 1
      with a show ?thesis by (simp add: search_first)
    next
      case 2
      with a have "(ds ! 0) u = Some []" "(ds ! 1) u = Some (r # rs)" by auto
      with 2 show ?thesis by (simp add: search_second)
    next
      case 3
      with a have "(ds ! 0) u = Some []" "(ds ! 1) u = Some []" "(ds ! 2) u = Some (r # rs)"
        by auto
      with 3 show ?thesis by (simp add: search_third numeral_2_eq_2)
    qed
  qed
  have o: "out = \<lparr>success = True, msg = Welcome (dict_get_default r ''first_name'' (JStr u)),
      user_record = r,
      session = set_user_session fmt now r (?tags ! i) (reset_login_attempts st),
      queried = take (Suc i) ?tags\<rparr>"
    unfolding out_def using lim s a by (intro authenticate_found) auto
  show "success out \<and> user_record out = r
            \<and> queried out = take (Suc i) ?tags
            \<and> login_attempts (session out) = 0 \<and> last_login_attempt (session out) = None
            \<and> authenticated (session out)
            \<and> current_project (session out) = ?tags ! i
            \<and> dict_get (user_info (session out)) ''project_type'' = JStr (?tags ! i)"
    unfolding o using session_after_login [of fmt now r "?tags ! i" st] by simp
next
  assume a: "\<forall>j<3. (ds ! j) u = Some []"
  then have "(ds ! 0) u = Some []" "(ds ! 1) u = Some []" "(ds ! 2) u = Some []" by auto
  then have "search_stores (db_managers (ds ! 0) (ds ! 1) (ds ! 2)) u
     = (None, [''lead'', ''cpa'', ''prop''])"
    by (rule search_none)
  then show "\<not> success out \<and> msg out = UserNotFound \<and> user_record out = []
            \<and> queried out = [''lead'', ''cpa'', ''prop'']
            \<and> session out
                 = st\<lparr>login_attempts := login_attempts st + 1, last_login_attempt := Some now\<rparr>"
    unfolding out_def using lim
    by (simp add: authenticate_user_def increment_login_attempts_def)
  qed
  then show ?thesis
    unfolding out_def Let_def .
qed

theorem authenticate_tenant_search_witness:
  "check_rate_limit init_auth_config 0 init_session_state
   \<and> success (authenticate_user (\<lambda>p h. None) (\<lambda>s. []) (\<lambda>t. [])
        init_auth_config (db_managers (example_stores ! 0) (example_stores ! 1) (example_stores ! 2))
        0 init_session_state ''mario'' ''segreto'')
   \<and> current_project (session (authenticate_user (\<lambda>p h. None) (\<lambda>s. []) (\<lambda>t. [])
        init_auth_config (db_managers (example_stores ! 0) (example_stores ! 1) (example_stores ! 2))
        0 init_session_state ''mario'' ''segreto'')) = ''cpa''
   \<and> queried (authenticate_user (\<lambda>p h. None) (\<lambda>s. []) (\<lambda>t. [])
        init_auth_config (db_managers (example_stores ! 0) (example_stores ! 1) (example_stores ! 2))
        0 init_session_state ''mario'' ''segreto'') = [''lead'', ''cpa'']
   \<and> msg (authenticate_user (\<lambda>p h. None) (\<lambda>s. []) (\<lambda>t. [])
        init_auth_config (db_managers (example_stores ! 0) (example_stores ! 1) (example_stores ! 2))
        0 init_session_state ''luigi'' ''segreto'') = UserNotFound
   \<and> login_attempts (session (authenticate_user (\<lambda>p h. None) (\<lambda>s. []) (\<lambda>t. [])
        init_auth_config (db_managers (example_stores ! 0) (example_stores ! 1) (example_stores ! 2))
        0 init_session_state ''luigi'' ''segreto'')) = 1
   \<and> last_login_attempt (session (authenticate_user (\<lambda>p h. None) (\<lambda>s. []) (\<lambda>t. [])
        init_auth_config (db_managers (example_stores ! 0) (example_stores ! 1) (example_stores ! 2))
        0 init_session_state ''luigi'' ''segreto'')) = Some 0"
proof -
  have lim: "check_rate_limit init_auth_config 0 init_session_state"
    by (simp add: check_rate_limit_def init_auth_config_def init_session_state_def config_get_def)
  have others: "\<forall>j<3. j \<noteq> 1 \<longrightarrow> (example_stores ! j) ''mario'' = Some []"
    by (simp add: example_stores_def nth_Cons split: nat.splits)
  have nobody: "\<forall>j<3. (example_stores ! j) ''luigi'' = Some []"
    by (simp add: example_stores_def nth_Cons split: nat.splits)
  have found: "(example_stores ! 1) ''mario'' = Some (example_row # [])"
    by (simp add: example_stores_def)
  have ver: "verify_stored (\<lambda>p h. None) (\<lambda>s. []) ''segreto'' example_row"
    by (simp add: verify_stored_def example_row_def dict_get_default_def verify_password_def)
  have ne: "example_row \<noteq> []" by (simp add: example_row_def)
  show ?thesis
    using lim
      authenticate_tenant_search [OF lim, where i = 1 and ds = example_stores and u = "''mario''"
        and r = example_row and rs = "[]" and ck = "\<lambda>p h. None" and sh = "\<lambda>s. []"
        and pw = "''segreto''" and fmt = "\<lambda>t. []"]
      authenticate_tenant_search [OF lim, where i = 1 and ds = example_stores and u = "''luigi''"
        and r = example_row and rs = "[]" and ck = "\<lambda>p h. None" and sh = "\<lambda>s. []"
        and pw = "''segreto''" and fmt = "\<lambda>t. []"]
      others nobody found ver ne
    by (simp add: Let_def init_session_state_def)
qed



text \<open>
  Claim C6, as stated, requires the lockout window to follow the configuration. It does not:
  three failures recorded at time 0 still lock the session five minutes later, whatever
  durations the configuration holds.
\<close>

theorem lockout_window_not_configurable:
  "\<not> check_rate_limit (init_auth_config(''lockout_minutes'' \<mapsto> 1, ''session_timeout'' \<mapsto> 60))
       (timedelta_minutes 5) (failed_attempts 3 0 init_session_state)
   \<and> \<not> check_rate_limit init_auth_config
       (timedelta_minutes 5) (failed_attempts 3 0 init_session_state)"
  by (simp add: check_rate_limit_def init_auth_config_def config_get_def timedelta_minutes_def
      increment_login_attempts_def init_session_state_def numeral_3_eq_3)

text \<open>
  Claim C6, amended. Of the two parameters only the maximum failure count is read from the
  configuration: two configurations that agree on \<open>max_login_attempts\<close> give the same
  answer; inside the window the answer is whether the recorded failures are below the configured
  maximum; and once 15 minutes have passed since the last failure the limiter allows, under
  every configuration.
\<close>

theorem rate_limit_configuration:
  "(c1 ''max_login_attempts'' = c2 ''max_login_attempts'' \<longrightarrow>
      check_rate_limit c1 now st = check_rate_limit c2 now st)
   \<and> (cfg ''max_login_attempts'' = Some m \<and> last_login_attempt st = Some t
        \<and> now - t < timedelta_minutes 15 \<longrightarrow>
      check_rate_limit cfg now st = (login_attempts st < m))
   \<and> (last_login_attempt st = Some t \<and> timedelta_minutes 15 \<le> now - t \<longrightarrow>
      check_rate_limit cfg now st)"
  by (auto simp: check_rate_limit_def config_get_def)

theorem rate_limit_configuration_witness:
  "check_rate_limit (init_auth_config(''lockout_minutes'' \<mapsto> 1)) (timedelta_minutes 5)
       (failed_attempts 3 0 init_session_state)
     = check_rate_limit init_auth_config (timedelta_minutes 5)
       (failed_attempts 3 0 init_session_state)
   \<and> \<not> check_rate_limit init_auth_config (timedelta_minutes 5)
       (failed_attempts 3 0 init_session_state)
   \<and> check_rate_limit (init_auth_config(''max_login_attempts'' \<mapsto> 5)) (timedelta_minutes 5)
       (failed_attempts 3 0 init_session_state)
   \<and> check_rate_limit (init_auth_config(''max_login_attempts'' \<mapsto> 5)) (timedelta_minutes 15)
       (failed_attempts 7 0 init_session_state)"
  using
    rate_limit_configuration [where ?c1.0 = "init_auth_config(''lockout_minutes'' \<mapsto> 1)"
      and ?c2.0 = init_auth_config and now = "timedelta_minutes 5"
      and st = "failed_attempts 3 0 init_session_state"
      and cfg = init_auth_config and m = 3 and t = 0]
    rate_limit_configuration [where ?c1.0 = init_auth_config
      and ?c2.0 = init_auth_config and now = "timedelta_minutes 5"
      and st = "failed_attempts 3 0 init_session_state"
      and cfg = "init_auth_config(''max_login_attempts'' \<mapsto> 5)" and m = 5 and t = 0]
    rate_limit_configuration [where ?c1.0 = init_auth_config
      and ?c2.0 = init_auth_config and now = "timedelta_minutes 15"
      and st = "failed_attempts 7 0 init_session_state"
      and cfg = "init_auth_config(''max_login_attempts'' \<mapsto> 5)" and m = 5 and t = 0]
  by (simp add: init_auth_config_def timedelta_minutes_def attempts_failed0 last_failed0)

section \<open>Facts about the cache and the statistics\<close>

lemma cached_fresh:
  assumes "cache st (cache_key hs tag ms) = Some (t, c)"
    and "t_check - t < timedelta_seconds cache_timeout"
  shows "make_api_call hs cfg post t_check t_store ms tag st = (c, st)"
  using assms by (simp add: make_api_call_def)

lemma not_fresh_sends:
  assumes "\<forall>t c. cache st (cache_key hs tag ms) = Some (t, c) \<longrightarrow>
             timedelta_seconds cache_timeout \<le> t_check - t"
  shows "sent (snd (make_api_call hs cfg post t_check t_store ms tag st))
           = build_request cfg ms # sent st"
  using assms
  by (auto simp: make_api_call_def Let_def split: option.splits http_result.splits)

lemma success_stores:
  assumes "\<forall>t c. cache st (cache_key hs tag ms) = Some (t, c) \<longrightarrow>
             timedelta_seconds cache_timeout \<le> t_check - t"
    and "post (build_request cfg ms) = HttpResponse 200 (Some result)"
    and "extract_content result = Some c"
  shows "make_api_call hs cfg post t_check t_store ms tag st =
      (c, st\<lparr>sent := build_request cfg ms # sent st,
              cache := (cache st)(cache_key hs tag ms \<mapsto> (t_store, c))\<rparr>)"
  using assms
  by (auto simp: make_api_call_def Let_def split: option.splits http_result.splits)

text \<open>The rounding is that of binary64: \<open>ilog2\<close> finds the binade, the rounded value is
  within half a unit in the last place, and the rate is within a relative error of \<open>2\<^sup>-\<^sup>5\<^sup>1\<close>
  of the exact quotient.\<close>

lemma pow2_powi: "pow2 e = power_int 2 e"
  by (simp add: pow2_def power_int_def power_one_over inverse_eq_divide)

lemma pow2_pos: "0 < pow2 e"
  by (simp add: pow2_powi)

lemma pow2_add: "pow2 (a + b) = pow2 a * pow2 b"
  by (simp add: pow2_powi power_int_add)

lemma pow2_mono: "a \<le> b \<Longrightarrow> pow2 a \<le> pow2 b"
  by (simp add: pow2_powi power_int_increasing)

lemma pow2_less_cancel: "pow2 a < pow2 b \<Longrightarrow> a < b"
  using pow2_mono [of b a] by (cases "a < b") auto

lemma pow2_nat: "pow2 (int n) = 2 ^ n"
  by (simp add: pow2_def)

lemma round_half_even_err: "\<bar>of_int (round_half_even x) - x\<bar> \<le> 1 / 2"
proof -
  have "of_int \<lfloor>x\<rfloor> \<le> x" "x < of_int \<lfloor>x\<rfloor> + 1"
    by linarith+
  then show ?thesis
    by (auto simp: round_half_even_def Let_def abs_le_iff)
qed

lemma ilog2_bounds:
  assumes "0 < q"
  shows "pow2 (ilog2 q) \<le> q \<and> q < pow2 (ilog2 q + 1)"
proof -
  obtain a b where ab: "quotient_of q = (a, b)" by (cases "quotient_of q")
  then have b: "0 < b" and q: "q = of_int a / of_int b"
    using quotient_of_denom_pos quotient_of_div by blast+
  have a: "0 < a"
    using assms b by (simp add: q zero_less_divide_iff)
  define e0 where "e0 = bitlen a - bitlen b - 1"
  have la: "1 \<le> bitlen a" and lb: "1 \<le> bitlen b"
    using a b by (auto simp: bitlen_alt_def)
  have ba: "(2::int) ^ nat (bitlen a - 1) \<le> a" "a < 2 ^ nat (bitlen a)"
    using bitlen_bounds [OF a] by auto
  have bb: "(2::int) ^ nat (bitlen b - 1) \<le> b" "b < 2 ^ nat (bitlen b)"
    using bitlen_bounds [OF b] by auto
  have ra: "pow2 (bitlen a - 1) \<le> of_int a" "of_int a < pow2 (bitlen a)"
  proof -
    have "of_int ((2::int) ^ nat (bitlen a - 1)) \<le> (of_int a :: rat)"
      using ba(1) of_int_le_iff by blast
    then show "pow2 (bitlen a - 1) \<le> of_int a"
      using la by (simp add: pow2_def)
    have "(of_int a :: rat) < of_int ((2::int) ^ nat (bitlen a))"
      using ba(2) of_int_less_iff by blast
    then show "of_int a < pow2 (bitlen a)"
      using la by (simp add: pow2_def)
  qed
  have rb: "pow2 (bitlen b - 1) \<le> of_int b" "of_int b < pow2 (bitlen b)"
  proof -
    have "of_int ((2::int) ^ nat (bitlen b - 1)) \<le> (of_int b :: rat)"
      using bb(1) of_int_le_iff by blast
    then show "pow2 (bitlen b - 1) \<le> of_int b"
      using lb by (simp add: pow2_def)
    have "(of_int b :: rat) < of_int ((2::int) ^ nat (bitlen b))"
      using bb(2) of_int_less_iff by blast
    then show "of_int b < pow2 (bitlen b)"
      using lb by (simp add: pow2_def)
  qed
  have bpos: "(0::rat) < of_int b" using b by simp
  have lower: "pow2 e0 \<le> q"
  proof -
    have "pow2 e0 * of_int b \<le> pow2 e0 * pow2 (bitlen b)"
      using rb(2) pow2_pos [of e0] by (simp add: less_imp_le)
    also have "\<dots> = pow2 (bitlen a - 1)"
      by (simp add: pow2_add [symmetric] e0_def)
    also have "\<dots> \<le> of_int a" by (rule ra(1))
    finally show ?thesis
      using bpos by (simp add: q pos_le_divide_eq)
  qed
  have upper: "q < pow2 (e0 + 2)"
  proof -
    have "of_int a < pow2 (bitlen a)" by (rule ra(2))
    also have "\<dots> = pow2 (e0 + 2) * pow2 (bitlen b - 1)"
      by (simp add: pow2_add [symmetric] e0_def)
    also have "\<dots> \<le> pow2 (e0 + 2) * of_int b"
      using rb(1) pow2_pos [of "e0 + 2"] by simp
    finally show ?thesis
      using bpos by (simp add: q pos_divide_less_eq)
  qed
  have il: "ilog2 q = (if pow2 (e0 + 1) \<le> q then e0 + 1 else e0)"
    by (simp add: ilog2_def ab e0_def Let_def)
  show ?thesis
  proof (cases "pow2 (e0 + 1) \<le> q")
    case True
    then show ?thesis using upper by (simp add: il add.commute add.left_commute)
  next
    case False
    then show ?thesis using lower by (simp add: il)
  qed
qed

lemma round_double_err:
  assumes "pow2 (- 1022) \<le> q"
  shows "\<bar>round_double q - q\<bar> \<le> q / 2 ^ 53"
proof -
  have qpos: "0 < q" using assms pow2_pos [of "- 1022"] by linarith
  define e where "e = ilog2 q"
  have eb: "pow2 e \<le> q" "q < pow2 (e + 1)"
    using ilog2_bounds [OF qpos] by (simp_all add: e_def)
  have "pow2 (- 1022) < pow2 (e + 1)" using assms eb(2) by linarith
  then have ege: "- 1022 \<le> e" using pow2_less_cancel by fastforce
  define ulp where "ulp = pow2 (e - 52)"
  have ulp: "0 < ulp" by (simp add: ulp_def pow2_pos)
  have rd: "round_double q = of_int (round_half_even (q / ulp)) * ulp"
    using qpos ege by (simp add: round_double_def e_def ulp_def Let_def max_def)
  have "\<bar>round_double q - q\<bar> = \<bar>of_int (round_half_even (q / ulp)) - q / ulp\<bar> * ulp"
  proof -
    have "round_double q - q = (of_int (round_half_even (q / ulp)) - q / ulp) * ulp"
      using ulp by (simp add: rd field_simps)
    then show ?thesis using ulp by (simp add: abs_mult)
  qed
  also have "\<dots> \<le> (1 / 2) * ulp"
    using round_half_even_err [of "q / ulp"] ulp by (simp add: mult_right_mono)
  also have "\<dots> = pow2 e / 2 ^ 53"
  proof -
    have "pow2 e = pow2 (e - 52) * pow2 52"
      by (simp add: pow2_add [symmetric])
    then show ?thesis by (simp add: ulp_def pow2_def)
  qed
  also have "\<dots> \<le> q / 2 ^ 53"
    using eb(1) by (simp add: divide_right_mono)
  finally show ?thesis .
qed

lemma rate_accuracy:
  assumes c: "0 \<le> c" "c \<le> t" and t: "0 < t" "t < 2 ^ 1000"
  shows "\<bar>float_mul (int_truediv c t) 100 - 100 * of_int c / of_int t\<bar>
           \<le> (100 * of_int c / of_int t) / 2 ^ 51"
proof (cases "c = 0")
  case True
  then show ?thesis
    by (simp add: float_mul_def int_truediv_def round_double_def)
next
  case False
  define x :: rat where "x = of_int c / of_int t"
  define u :: rat where "u = 1 / 2 ^ 53"
  have cpos: "0 < c" using c False by simp
  have tr: "(0::rat) < of_int t" using t by simp
  have xpos: "0 < x" using cpos tr by (simp add: x_def)
  have "(of_int t :: rat) < of_int ((2::int) ^ 1000)"
    using t(2) of_int_less_iff by blast
  then have tlt: "(of_int t :: rat) < 2 ^ 1000" by simp
  have "(1::rat) \<le> of_int c" using cpos by simp
  then have "1 / of_int t \<le> x"
    using tr by (simp add: x_def divide_right_mono)
  moreover have "(1::rat) / 2 ^ 1000 < 1 / of_int t"
    using tlt tr by (simp add: frac_less2)
  moreover have "pow2 (- 1022) \<le> 1 / 2 ^ 1000"
    by (simp add: pow2_def frac_le)
  ultimately have xlow: "1 / 2 ^ 1000 \<le> x" and xnorm: "pow2 (- 1022) \<le> x"
    by linarith+
  define r1 where "r1 = round_double x"
  have e1: "\<bar>r1 - x\<bar> \<le> x * u"
    using round_double_err [OF xnorm] by (simp add: r1_def u_def)
  have u: "0 < u" "u \<le> 1 / 2" by (simp_all add: u_def)
  have r1lo: "x * (1 - u) \<le> r1" and r1hi: "r1 \<le> x * (1 + u)"
    using e1 by (simp_all add: abs_le_iff algebra_simps)
  have "x * (1 / 2) \<le> x * (1 - u)"
    using xpos u by (intro mult_left_mono) simp_all
  then have half: "x / 2 \<le> r1" using r1lo by simp
  have ynorm: "pow2 (- 1022) \<le> r1 * 100"
  proof -
    have "pow2 (- 1022) \<le> x" by (rule xnorm)
    also have "\<dots> \<le> (x / 2) * 100" using xpos by simp
    also have "\<dots> \<le> r1 * 100" using half by simp
    finally show ?thesis .
  qed
  define r2 where "r2 = round_double (r1 * 100)"
  have e2: "\<bar>r2 - r1 * 100\<bar> \<le> (r1 * 100) * u"
    using round_double_err [OF ynorm] by (simp add: r2_def u_def)
  have "\<bar>r2 - 100 * x\<bar> \<le> \<bar>r2 - r1 * 100\<bar> + \<bar>r1 * 100 - 100 * x\<bar>"
    by linarith
  also have "\<bar>r1 * 100 - 100 * x\<bar> = 100 * \<bar>r1 - x\<bar>"
  proof -
    have "r1 * 100 - 100 * x = 100 * (r1 - x)" by (simp add: algebra_simps)
    then show ?thesis by (simp only: abs_mult abs_numeral)
  qed
  also have "\<bar>r2 - r1 * 100\<bar> + 100 * \<bar>r1 - x\<bar> \<le> (r1 * 100) * u + 100 * (x * u)"
    using e1 e2 by (intro add_mono mult_left_mono) simp_all
  also have "\<dots> \<le> (x * (1 + u) * 100) * u + 100 * (x * u)"
    using r1hi u(1) by (simp add: mult_right_mono)
  also have "\<dots> = 100 * x * (u * (2 + u))"
    by (simp add: algebra_simps)
  also have "\<dots> \<le> 100 * x * (1 / 2 ^ 51)"
  proof -
    have "u * (2 + u) \<le> 1 / 2 ^ 51" by (simp add: u_def)
    then show ?thesis using xpos by (intro mult_left_mono) simp_all
  qed
  finally have "\<bar>r2 - 100 * x\<bar> \<le> 100 * x / 2 ^ 51" by simp
  then show ?thesis
    by (simp add: r2_def r1_def x_def float_mul_def int_truediv_def)
qed

text \<open>The arithmetic is not exact: 7 converted rows of 100 give \<open>7.000000000000001\<close>.\<close>

lemma rate_7: "float_mul (int_truediv 7 100) 100 = 7 + 1 / 2 ^ 50"
  by code_simp

lemma count_converted:
  "count_list (map f xs) v = length (filter (\<lambda>x. f x = v) xs)"
  by (induction xs) auto

lemma rate_37: "float_mul (int_truediv 37 100) 100 = 37"
  by code_simp

lemma lead_falls_back:
  assumes "lead_data_summary lib df = Some s" and "lead_messages lib s tag = Some ms"
    and "\<not> py_truthy (fst (call_inference lib cfg env ms tag st))"
  shows "analyze_lead_data lib cfg env st df tag
      = (fallback_lead_analysis lib env s, snd (call_inference lib cfg env ms tag st))"
  using assms by (auto simp: analyze_lead_data_def split: prod.splits)

lemma lead_wraps_text:
  assumes "lead_data_summary lib df = Some s" and "lead_messages lib s tag = Some ms"
    and "fst (call_inference lib cfg env ms tag st) = JStr text"
    and "text \<noteq> []" and "lib_json_loads lib text = None"
  shows "analyze_lead_data lib cfg env st df tag =
      (JObj [(''analysis'', JStr text), (''data_summary'', s),
             (''timestamp'', JStr (lib_isoformat lib (env_t_stamp env)))],
       snd (call_inference lib cfg env ms tag st))"
  using assms by (auto simp: analyze_lead_data_def split: prod.splits)

lemma cpa_falls_back:
  assumes "cpa_basic_metrics lib df = Some s" and "cpa_messages lib s tag = Some ms"
    and "\<not> py_truthy (fst (call_inference lib cfg env ms tag st))"
  shows "calculate_cpa_metrics lib cfg env st df tag
      = (fallback_cpa_analysis lib env s, snd (call_inference lib cfg env ms tag st))"
  using assms by (auto simp: calculate_cpa_metrics_def split: prod.splits)

lemma cpa_wraps_text:
  assumes "cpa_basic_metrics lib df = Some s" and "cpa_messages lib s tag = Some ms"
    and "fst (call_inference lib cfg env ms tag st) = JStr text"
    and "text \<noteq> []" and "lib_json_loads lib text = None"
  shows "calculate_cpa_metrics lib cfg env st df tag =
      (JObj [(''advanced_analysis'', JStr text), (''basic_metrics'', s),
             (''timestamp'', JStr (lib_isoformat lib (env_t_stamp env)))],
       snd (call_inference lib cfg env ms tag st))"
  using assms by (auto simp: calculate_cpa_metrics_def split: prod.splits)

lemma broker_falls_back:
  assumes "broker_basic_analysis lib df = Some s" and "broker_messages lib s tag = Some ms"
    and "\<not> py_truthy (fst (call_inference lib cfg env ms tag st))"
  shows "analyze_broker_performance lib cfg env st df tag
      = (fallback_broker_analysis lib env s, snd (call_inference lib cfg env ms tag st))"
  using assms by (auto simp: analyze_broker_performance_def split: prod.splits)

lemma broker_wraps_text:
  assumes "broker_basic_analysis lib df = Some s" and "broker_messages lib s tag = Some ms"
    and "fst (call_inference lib cfg env ms tag st) = JStr text"
    and "text \<noteq> []" and "lib_json_loads lib text = None"
  shows "analyze_broker_performance lib cfg env st df tag =
      (JObj [(''advanced_analysis'', JStr text), (''basic_analysis'', s),
             (''timestamp'', JStr (lib_isoformat lib (env_t_stamp env)))],
       snd (call_inference lib cfg env ms tag st))"
  using assms by (auto simp: analyze_broker_performance_def split: prod.splits)

lemma offline_absent:
  "cache st = Map.empty \<Longrightarrow>
   fst (call_inference lib cfg (env_with (\<lambda>r. NetworkError)) ms tag st) = JNull"
  by (simp add: call_inference_def make_api_call_def env_with_def Let_def)

lemma online_content:
  "cache st = Map.empty \<Longrightarrow>
   fst (call_inference lib cfg (env_with (reply_with c)) ms tag st) = c"
  by (simp add: call_inference_def make_api_call_def env_with_def Let_def reply_with_def
      extract_content_def)

lemma example_lead_summary:
  "lead_data_summary example_lib lead_frame
     = Some (the (lead_data_summary example_lib lead_frame))"
  by (simp add: lead_data_summary_def example_lib_def lead_frame_def get_top_sources_def
      analyze_trends_def)

lemma example_cpa_metrics:
  "cpa_basic_metrics example_lib client_frame
     = Some (the (cpa_basic_metrics example_lib client_frame))"
  by (simp add: cpa_basic_metrics_def example_lib_def client_frame_def
      get_broker_distribution_def analyze_platforms_def calculate_financial_projections_def)

lemma example_broker_analysis:
  "broker_basic_analysis example_lib client_frame
     = Some (the (broker_basic_analysis example_lib client_frame))"
  by (simp add: broker_basic_analysis_def example_lib_def client_frame_def
      rank_brokers_def calculate_broker_metrics_def)

lemma example_messages_built:
  "lead_messages example_lib s tag = Some (the (lead_messages example_lib s tag))"
  "cpa_messages example_lib s tag = Some (the (cpa_messages example_lib s tag))"
  "broker_messages example_lib s tag = Some (the (broker_messages example_lib s tag))"
  by (simp_all add: lead_messages_def cpa_messages_def broker_messages_def example_lib_def)

lemma empty_cache: "cache empty_ai_state = Map.empty"
  by (simp add: empty_ai_state_def)

lemma example_undecodable: "lib_json_loads example_lib ''non json'' = None"
  by (simp add: example_lib_def)

section \<open>Claims about the inference client and the callers\<close>

text \<open>
  Claim C5. A call whose cache entry (keyed by the tag and the hash of the messages) is younger
  than 300 seconds returns the stored response and leaves the state as it is, so no request is
  sent. Hence, when a first call finds no fresh entry and its request succeeds, one request
  has been sent; a second call with the same messages and tag less than 300 seconds after the
  response was stored returns the same response without sending anything; and a call 300
  seconds or more after the store sends a new request.
\<close>

theorem inference_cache:
  "(cache st (cache_key hs tag ms) = Some (t, c) \<and> now - t < timedelta_seconds 300 \<longrightarrow>
      make_api_call hs cfg net now now' ms tag st = (c, st))
   \<and> ((\<forall>t c. cache st0 (cache_key hs tag ms) = Some (t, c) \<longrightarrow> timedelta_seconds 300 \<le> t1 - t)
        \<and> net1 (build_request cfg ms) = HttpResponse 200 (Some result)
        \<and> extract_content result = Some c1 \<longrightarrow>
      (case make_api_call hs cfg net1 t1 t1' ms tag st0 of (r1, s1) \<Rightarrow>
         r1 = c1 \<and> sent s1 = build_request cfg ms # sent st0
         \<and> (t2 - t1' < timedelta_seconds 300 \<longrightarrow>
              make_api_call hs cfg net2 t2 t2' ms tag s1 = (c1, s1))
         \<and> (timedelta_seconds 300 \<le> t3 - t1' \<longrightarrow>
              sent (snd (make_api_call hs cfg net3 t3 t3' ms tag s1))
                = build_request cfg ms # sent s1)))"
proof (rule conjI; rule impI)
  assume "cache st (cache_key hs tag ms) = Some (t, c) \<and> now - t < timedelta_seconds 300"
  then show "make_api_call hs cfg net now now' ms tag st = (c, st)"
    by (simp add: cached_fresh cache_timeout_def)
next
  assume a: "(\<forall>t c. cache st0 (cache_key hs tag ms) = Some (t, c) \<longrightarrow> timedelta_seconds 300 \<le> t1 - t)
        \<and> net1 (build_request cfg ms) = HttpResponse 200 (Some result)
        \<and> extract_content result = Some c1"
  define s1 where "s1 = st0\<lparr>sent := build_request cfg ms # sent st0,
              cache := (cache st0)(cache_key hs tag ms \<mapsto> (t1', c1))\<rparr>"
  have first: "make_api_call hs cfg net1 t1 t1' ms tag st0 = (c1, s1)"
    unfolding s1_def using a by (intro success_stores) (auto simp: cache_timeout_def)
  have entry: "cache s1 (cache_key hs tag ms) = Some (t1', c1)"
    by (simp add: s1_def)
  have second: "make_api_call hs cfg net2 t2 t2' ms tag s1 = (c1, s1)"
    if "t2 - t1' < timedelta_seconds 300"
    using entry that by (simp add: cached_fresh cache_timeout_def)
  have third: "sent (snd (make_api_call hs cfg net3 t3 t3' ms tag s1)) = build_request cfg ms # sent s1"
    if "timedelta_seconds 300 \<le> t3 - t1'"
    using entry that by (intro not_fresh_sends) (simp add: cache_timeout_def)
  show "case make_api_call hs cfg net1 t1 t1' ms tag st0 of (r1, s1) \<Rightarrow>
         r1 = c1 \<and> sent s1 = build_request cfg ms # sent st0
         \<and> (t2 - t1' < timedelta_seconds 300 \<longrightarrow>
              make_api_call hs cfg net2 t2 t2' ms tag s1 = (c1, s1))
         \<and> (timedelta_seconds 300 \<le> t3 - t1' \<longrightarrow>
              sent (snd (make_api_call hs cfg net3 t3 t3' ms tag s1))
                = build_request cfg ms # sent s1)"
    unfolding first using second third by (simp add: s1_def)
qed

theorem inference_cache_witness:
  "(case make_api_call (\<lambda>m. 42) example_settings (reply_with (JStr ''testo''))
           0 (timedelta_seconds 1) example_messages ''lead'' empty_ai_state of
      (r1, s1) \<Rightarrow>
        r1 = JStr ''testo'' \<and> length (sent s1) = 1
        \<and> make_api_call (\<lambda>m. 42) example_settings (\<lambda>r. NetworkError)
             (timedelta_seconds 300) (timedelta_seconds 300) example_messages ''lead'' s1
           = (JStr ''testo'', s1)
        \<and> length (sent (snd (make_api_call (\<lambda>m. 42) example_settings (\<lambda>r. NetworkError)
             (timedelta_seconds 301) (timedelta_seconds 301) example_messages ''lead'' s1))) = 2)"
proof -
  have fresh: "\<forall>t c. cache empty_ai_state (cache_key (\<lambda>m. 42) ''lead'' example_messages) = Some (t, c)
      \<longrightarrow> timedelta_seconds 300 \<le> 0 - t"
    by (simp add: empty_ai_state_def)
  have ok: "reply_with (JStr ''testo'') (build_request example_settings example_messages)
      = HttpResponse 200
         (Some (JObj [(''choices'', JArr [JObj [(''message'', JObj [(''content'', JStr ''testo'')])]])]))"
    by (simp add: reply_with_def)
  have ex: "extract_content
      (JObj [(''choices'', JArr [JObj [(''message'', JObj [(''content'', JStr ''testo'')])]])])
      = Some (JStr ''testo'')"
    by (simp add: extract_content_def)
  show ?thesis
    using fresh ok ex
      inference_cache [where ?st0.0 = empty_ai_state and hs = "\<lambda>m. 42" and tag = "''lead''"
        and ms = example_messages and ?t1.0 = 0 and ?t1' = "timedelta_seconds 1"
        and cfg = example_settings and ?net1.0 = "reply_with (JStr ''testo'')"
        and result = "JObj [(''choices'', JArr [JObj [(''message'', JObj [(''content'', JStr ''testo'')])]])]"
        and ?c1.0 = "JStr ''testo''"
        and ?t2.0 = "timedelta_seconds 300" and ?t2' = "timedelta_seconds 300"
        and ?net2.0 = "\<lambda>r. NetworkError"
        and ?t3.0 = "timedelta_seconds 301" and ?t3' = "timedelta_seconds 301"
        and ?net3.0 = "\<lambda>r. NetworkError"]
    by (auto simp: timedelta_seconds_def empty_ai_state_def split: prod.splits)
qed

text \<open>
  Claim C2. For each of the three callers (lead analysis, CPA metrics, broker analysis): when
  the statistics have been computed and the inference call returns nothing (\<open>None\<close>, or
  another false value such as the empty text), the caller returns an object that is not empty,
  is not the error object of the outer handler, holds the computed statistics, and holds a
  recommendation list that is not empty.
\<close>

theorem fallback_when_absent:
  "(lead_data_summary lib df = Some s \<and> lead_messages lib s tag = Some ms
      \<and> \<not> py_truthy (fst (call_inference lib cfg env ms tag st)) \<longrightarrow>
      (case analyze_lead_data lib cfg env st df tag of (res, st') \<Rightarrow>
         st' = snd (call_inference lib cfg env ms tag st)
         \<and> res \<noteq> JObj [] \<and> getitem_key res ''error'' = None
         \<and> getitem_key res ''data_summary'' = Some s
         \<and> (\<exists>recs. getitem_key res ''recommendations'' = Some (JArr recs) \<and> recs \<noteq> [])))
   \<and> (cpa_basic_metrics lib df = Some s \<and> cpa_messages lib s tag = Some ms
      \<and> \<not> py_truthy (fst (call_inference lib cfg env ms tag st)) \<longrightarrow>
      (case calculate_cpa_metrics lib cfg env st df tag of (res, st') \<Rightarrow>
         st' = snd (call_inference lib cfg env ms tag st)
         \<and> res \<noteq> JObj [] \<and> getitem_key res ''error'' = None
         \<and> getitem_key res ''basic_metrics'' = Some s
         \<and> (\<exists>recs. getitem_key res ''recommendations'' = Some (JArr recs) \<and> recs \<noteq> [])))
   \<and> (broker_basic_analysis lib df = Some s \<and> broker_messages lib s tag = Some ms
      \<and> \<not> py_truthy (fst (call_inference lib cfg env ms tag st)) \<longrightarrow>
      (case analyze_broker_performance lib cfg env st df tag of (res, st') \<Rightarrow>
         st' = snd (call_inference lib cfg env ms tag st)
         \<and> res \<noteq> JObj [] \<and> getitem_key res ''error'' = None
         \<and> getitem_key res ''basic_analysis'' = Some s
         \<and> (\<exists>recs. getitem_key res ''recommendations'' = Some (JArr recs) \<and> recs \<noteq> [])))"
proof (intro conjI; rule impI)
  assume "lead_data_summary lib df = Some s \<and> lead_messages lib s tag = Some ms
      \<and> \<not> py_truthy (fst (call_inference lib cfg env ms tag st))"
  then have "analyze_lead_data lib cfg env st df tag
      = (fallback_lead_analysis lib env s, snd (call_inference lib cfg env ms tag st))"
    by (intro lead_falls_back) simp_all
  then show "case analyze_lead_data lib cfg env st df tag of (res, st') \<Rightarrow>
         st' = snd (call_inference lib cfg env ms tag st)
         \<and> res \<noteq> JObj [] \<and> getitem_key res ''error'' = None
         \<and> getitem_key res ''data_summary'' = Some s
         \<and> (\<exists>recs. getitem_key res ''recommendations'' = Some (JArr recs) \<and> recs \<noteq> [])"
    by (simp add: fallback_lead_analysis_def)
next
  assume "cpa_basic_metrics lib df = Some s \<and> cpa_messages lib s tag = Some ms
      \<and> \<not> py_truthy (fst (call_inference lib cfg env ms tag st))"
  then have "calculate_cpa_metrics lib cfg env st df tag
      = (fallback_cpa_analysis lib env s, snd (call_inference lib cfg env ms tag st))"
    by (intro cpa_falls_back) simp_all
  then show "case calculate_cpa_metrics lib cfg env st df tag of (res, st') \<Rightarrow>
         st' = snd (call_inference lib cfg env ms tag st)
         \<and> res \<noteq> JObj [] \<and> getitem_key res ''error'' = None
         \<and> getitem_key res ''basic_metrics'' = Some s
         \<and> (\<exists>recs. getitem_key res ''recommendations'' = Some (JArr recs) \<and> recs \<noteq> [])"
    by (simp add: fallback_cpa_analysis_def)
next
  assume "broker_basic_analysis lib df = Some s \<and> broker_messages lib s tag = Some ms
      \<and> \<not> py_truthy (fst (call_inference lib cfg env ms tag st))"
  then have "analyze_broker_performance lib cfg env st df tag
      = (fallback_broker_analysis lib env s, snd (call_inference lib cfg env ms tag st))"
    by (intro broker_falls_back) simp_all
  then show "case analyze_broker_performance lib cfg env st df tag of (res, st') \<Rightarrow>
         st' = snd (call_inference lib cfg env ms tag st)
         \<and> res \<noteq> JObj [] \<and> getitem_key res ''error'' = None
         \<and> getitem_key res ''basic_analysis'' = Some s
         \<and> (\<exists>recs. getitem_key res ''recommendations'' = Some (JArr recs) \<and> recs \<noteq> [])"
    by (simp add: fallback_broker_analysis_def)
qed

theorem fallback_when_absent_witness:
  "(case analyze_lead_data example_lib example_settings (env_with (\<lambda>r. NetworkError))
             empty_ai_state lead_frame ''lead'' of
        (res, st') \<Rightarrow>
          res \<noteq> JObj [] \<and> getitem_key res ''error'' = None
          \<and> getitem_key res ''data_summary'' = Some (the (lead_data_summary example_lib lead_frame))
          \<and> (\<exists>recs. getitem_key res ''recommendations'' = Some (JArr recs) \<and> recs \<noteq> []))
   \<and> (case calculate_cpa_metrics example_lib example_settings (env_with (\<lambda>r. NetworkError))
             empty_ai_state client_frame ''cpa'' of
        (res, st') \<Rightarrow>
          res \<noteq> JObj [] \<and> getitem_key res ''error'' = None
          \<and> getitem_key res ''basic_metrics'' = Some (the (cpa_basic_metrics example_lib client_frame))
          \<and> (\<exists>recs. getitem_key res ''recommendations'' = Some (JArr recs) \<and> recs \<noteq> []))
   \<and> (case analyze_broker_performance example_lib example_settings (env_with (\<lambda>r. NetworkError))
             empty_ai_state client_frame ''prop'' of
        (res, st') \<Rightarrow>
          res \<noteq> JObj [] \<and> getitem_key res ''error'' = None
          \<and> getitem_key res ''basic_analysis'' = Some (the (broker_basic_analysis example_lib client_frame))
          \<and> (\<exists>recs. getitem_key res ''recommendations'' = Some (JArr recs) \<and> recs \<noteq> []))"
proof -
  let ?env = "env_with (\<lambda>r. NetworkError)"
  let ?s1 = "the (lead_data_summary example_lib lead_frame)"
  let ?s2 = "the (cpa_basic_metrics example_lib client_frame)"
  let ?s3 = "the (broker_basic_analysis example_lib client_frame)"
  have absent: "\<not> py_truthy (fst (call_inference example_lib example_settings ?env ms tag empty_ai_state))"
    for ms tag
    by (simp add: offline_absent [OF empty_cache])
  note inst = fallback_when_absent [where lib = example_lib and cfg = example_settings
      and env = ?env and st = empty_ai_state]
  have r1: "case analyze_lead_data example_lib example_settings ?env empty_ai_state lead_frame ''lead'' of
        (res, st') \<Rightarrow>
          st' = snd (call_inference example_lib example_settings ?env
                  (the (lead_messages example_lib ?s1 ''lead'')) ''lead'' empty_ai_state)
          \<and> res \<noteq> JObj [] \<and> getitem_key res ''error'' = None
          \<and> getitem_key res ''data_summary'' = Some ?s1
          \<and> (\<exists>recs. getitem_key res ''recommendations'' = Some (JArr recs) \<and> recs \<noteq> [])"
    by (rule mp [OF inst [THEN conjunct1]])
      (intro conjI example_lead_summary example_messages_built absent)
  have r2: "case calculate_cpa_metrics example_lib example_settings ?env empty_ai_state client_frame ''cpa'' of
        (res, st') \<Rightarrow>
          st' = snd (call_inference example_lib example_settings ?env
                  (the (cpa_messages example_lib ?s2 ''cpa'')) ''cpa'' empty_ai_state)
          \<and> res \<noteq> JObj [] \<and> getitem_key res ''error'' = None
          \<and> getitem_key res ''basic_metrics'' = Some ?s2
          \<and> (\<exists>recs. getitem_key res ''recommendations'' = Some (JArr recs) \<and> recs \<noteq> [])"
    by (rule mp [OF inst [THEN conjunct2, THEN conjunct1]])
      (intro conjI example_cpa_metrics example_messages_built absent)
  have r3: "case analyze_broker_performance example_lib example_settings ?env empty_ai_state client_frame ''prop'' of
        (res, st') \<Rightarrow>
          st' = snd (call_inference example_lib example_settings ?env
                  (the (broker_messages example_lib ?s3 ''prop'')) ''prop'' empty_ai_state)
          \<and> res \<noteq> JObj [] \<and> getitem_key res ''error'' = None
          \<and> getitem_key res ''basic_analysis'' = Some ?s3
          \<and> (\<exists>recs. getitem_key res ''recommendations'' = Some (JArr recs) \<and> recs \<noteq> [])"
    by (rule mp [OF inst [THEN conjunct2, THEN conjunct2]])
      (intro conjI example_broker_analysis example_messages_built absent)
  show ?thesis
    using r1 r2 r3 by (simp split: prod.splits)
qed

text \<open>
  Claim C7, as stated, puts the raw text under \<open>analysis\<close> for every caller. With a response
  that does not decode, the CPA and the broker caller return an object without an
  \<open>analysis\<close> field; and with the empty text as response the lead caller returns its
  fallback, whose \<open>analysis\<close> field is the canned sentence.
\<close>

theorem raw_text_not_under_analysis:
  "lib_json_loads example_lib ''non json'' = None
   \<and> getitem_key (fst (calculate_cpa_metrics example_lib example_settings
          (env_with (reply_with (JStr ''non json''))) empty_ai_state client_frame ''cpa''))
        ''analysis'' = None
   \<and> getitem_key (fst (analyze_broker_performance example_lib example_settings
          (env_with (reply_with (JStr ''non json''))) empty_ai_state client_frame ''prop''))
        ''analysis'' = None
   \<and> getitem_key (fst (analyze_lead_data example_lib example_settings
          (env_with (reply_with (JStr ''''))) empty_ai_state lead_frame ''lead''))
        ''analysis'' = Some (JStr ''Analisi base completata (AI non disponibile)'')"
proof -
  have got: "fst (call_inference example_lib example_settings
      (env_with (reply_with (JStr ''non json''))) ms tag empty_ai_state) = JStr ''non json''"
    for ms tag
    by (rule online_content [OF empty_cache])
  have blank: "\<not> py_truthy (fst (call_inference example_lib example_settings
      (env_with (reply_with (JStr ''''))) ms tag empty_ai_state))"
    for ms tag
    by (simp add: online_content [OF empty_cache])
  have "getitem_key (fst (calculate_cpa_metrics example_lib example_settings
          (env_with (reply_with (JStr ''non json''))) empty_ai_state client_frame ''cpa''))
        ''analysis'' = None"
    by (simp add: cpa_wraps_text [OF example_cpa_metrics example_messages_built(2) got _
          example_undecodable])
  moreover have "getitem_key (fst (analyze_broker_performance example_lib example_settings
          (env_with (reply_with (JStr ''non json''))) empty_ai_state client_frame ''prop''))
        ''analysis'' = None"
    by (simp add: broker_wraps_text [OF example_broker_analysis example_messages_built(3) got _
          example_undecodable])
  moreover have "getitem_key (fst (analyze_lead_data example_lib example_settings
          (env_with (reply_with (JStr ''''))) empty_ai_state lead_frame ''lead''))
        ''analysis'' = Some (JStr ''Analisi base completata (AI non disponibile)'')"
    by (simp add: lead_falls_back [OF example_lead_summary example_messages_built(1) blank]
        fallback_lead_analysis_def)
  ultimately show ?thesis
    using example_undecodable by simp
qed

text \<open>
  Claim C7, amended. When the inference call returns a non-empty text that does not decode as
  JSON, each caller returns the raw text together with its statistics and the time stamp: the
  lead caller under \<open>analysis\<close>, the CPA and the broker caller under \<open>advanced_analysis\<close>.
\<close>

theorem unparsable_text_wrapped:
  "(lead_data_summary lib df = Some s \<and> lead_messages lib s tag = Some ms
      \<and> fst (call_inference lib cfg env ms tag st) = JStr text
      \<and> text \<noteq> [] \<and> lib_json_loads lib text = None \<longrightarrow>
      analyze_lead_data lib cfg env st df tag =
        (JObj [(''analysis'', JStr text), (''data_summary'', s),
               (''timestamp'', JStr (lib_isoformat lib (env_t_stamp env)))],
         snd (call_inference lib cfg env ms tag st)))
   \<and> (cpa_basic_metrics lib df = Some s \<and> cpa_messages lib s tag = Some ms
      \<and> fst (call_inference lib cfg env ms tag st) = JStr text
      \<and> text \<noteq> [] \<and> lib_json_loads lib text = None \<longrightarrow>
      calculate_cpa_metrics lib cfg env st df tag =
        (JObj [(''advanced_analysis'', JStr text), (''basic_metrics'', s),
               (''timestamp'', JStr (lib_isoformat lib (env_t_stamp env)))],
         snd (call_inference lib cfg env ms tag st)))
   \<and> (broker_basic_analysis lib df = Some s \<and> broker_messages lib s tag = Some ms
      \<and> fst (call_inference lib cfg env ms tag st) = JStr text
      \<and> text \<noteq> [] \<and> lib_json_loads lib text = None \<longrightarrow>
      analyze_broker_performance lib cfg env st df tag =
        (JObj [(''advanced_analysis'', JStr text), (''basic_analysis'', s),
               (''timestamp'', JStr (lib_isoformat lib (env_t_stamp env)))],
         snd (call_inference lib cfg env ms tag st)))"
  using lead_wraps_text [of lib df s tag ms cfg env st "text"]
    cpa_wraps_text [of lib df s tag ms cfg env st "text"]
    broker_wraps_text [of lib df s tag ms cfg env st "text"]
  by blast

theorem unparsable_text_wrapped_witness:
  "fst (analyze_lead_data example_lib example_settings
          (env_with (reply_with (JStr ''non json''))) empty_ai_state lead_frame ''lead'')
     = JObj [(''analysis'', JStr ''non json''),
             (''data_summary'', the (lead_data_summary example_lib lead_frame)),
             (''timestamp'', JStr (lib_isoformat example_lib 0))]
   \<and> fst (calculate_cpa_metrics example_lib example_settings
          (env_with (reply_with (JStr ''non json''))) empty_ai_state client_frame ''cpa'')
     = JObj [(''advanced_analysis'', JStr ''non json''),
             (''basic_metrics'', the (cpa_basic_metrics example_lib client_frame)),
             (''timestamp'', JStr (lib_isoformat example_lib 0))]
   \<and> fst (analyze_broker_performance example_lib example_settings
          (env_with (reply_with (JStr ''non json''))) empty_ai_state client_frame ''prop'')
     = JObj [(''advanced_analysis'', JStr ''non json''),
             (''basic_analysis'', the (broker_basic_analysis example_lib client_frame)),
             (''timestamp'', JStr (lib_isoformat example_lib 0))]"
proof -
  let ?env = "env_with (reply_with (JStr ''non json''))"
  have got: "fst (call_inference example_lib example_settings ?env ms tag empty_ai_state)
      = JStr ''non json''" for ms tag
    by (rule online_content [OF empty_cache])
  have stamp: "env_t_stamp ?env = 0" by (simp add: env_with_def)
  have ne: "''non json'' \<noteq> []" by simp
  note inst = unparsable_text_wrapped [where lib = example_lib and cfg = example_settings
      and env = ?env and st = empty_ai_state and ?text = "''non json''"]
  have r1: "analyze_lead_data example_lib example_settings ?env empty_ai_state lead_frame ''lead''
     = (JObj [(''analysis'', JStr ''non json''),
              (''data_summary'', the (lead_data_summary example_lib lead_frame)),
              (''timestamp'', JStr (lib_isoformat example_lib (env_t_stamp ?env)))],
        snd (call_inference example_lib example_settings ?env
               (the (lead_messages example_lib (the (lead_data_summary example_lib lead_frame))
                  ''lead'')) ''lead'' empty_ai_state))"
    by (rule mp [OF inst [THEN conjunct1]])
      (intro conjI example_lead_summary example_messages_built got ne example_undecodable)
  have r2: "calculate_cpa_metrics example_lib example_settings ?env empty_ai_state client_frame ''cpa''
     = (JObj [(''advanced_analysis'', JStr ''non json''),
              (''basic_metrics'', the (cpa_basic_metrics example_lib client_frame)),
              (''timestamp'', JStr (lib_isoformat example_lib (env_t_stamp ?env)))],
        snd (call_inference example_lib example_settings ?env
               (the (cpa_messages example_lib (the (cpa_basic_metrics example_lib client_frame))
                  ''cpa'')) ''cpa'' empty_ai_state))"
    by (rule mp [OF inst [THEN conjunct2, THEN conjunct1]])
      (intro conjI example_cpa_metrics example_messages_built got ne example_undecodable)
  have r3: "analyze_broker_performance example_lib example_settings ?env empty_ai_state client_frame ''prop''
     = (JObj [(''advanced_analysis'', JStr ''non json''),
              (''basic_analysis'', the (broker_basic_analysis example_lib client_frame)),
              (''timestamp'', JStr (lib_isoformat example_lib (env_t_stamp ?env)))],
        snd (call_inference example_lib example_settings ?env
               (the (broker_messages example_lib (the (broker_basic_analysis example_lib client_frame))
                  ''prop'')) ''prop'' empty_ai_state))"
    by (rule mp [OF inst [THEN conjunct2, THEN conjunct2]])
      (intro conjI example_broker_analysis example_messages_built got ne example_undecodable)
  show ?thesis
    by (simp add: r1 r2 r3 stamp)
qed

text \<open>
  Claim C9. The conversion rate is 0 for a frame without a \<open>stato\<close> column and for a frame
  without rows; otherwise it is the float computed as (rows whose \<open>stato\<close> is
  \<open>converted\<close>) \<open>/\<close> (rows) \<open>* 100\<close>, each operation rounded to binary64, which lies within a
  relative error of \<open>2\<^sup>-\<^sup>5\<^sup>1\<close> of the exact percentage; and for 100 rows of which 37 are
  converted it is exactly 37.
\<close>

theorem conversion_rate_statistic:
  "(''stato'' \<notin> set (columns data) \<or> rows data = [] \<longrightarrow> calculate_conversion_rate data = 0)
   \<and> (''stato'' \<in> set (columns data) \<and> rows data \<noteq> [] \<longrightarrow>
        calculate_conversion_rate data =
          float_mul
            (int_truediv
               (int (count_list (map (\<lambda>r. dict_get r ''stato'') (rows data)) (JStr ''converted'')))
               (int (length (rows data))))
            100)
   \<and> (''stato'' \<in> set (columns data) \<and> rows data \<noteq> [] \<and> length (rows data) < 2 ^ 1000 \<longrightarrow>
        \<bar>calculate_conversion_rate data
           - 100 * of_nat (count_list (map (\<lambda>r. dict_get r ''stato'') (rows data)) (JStr ''converted''))
               / of_nat (length (rows data))\<bar>
        \<le> (100 * of_nat (count_list (map (\<lambda>r. dict_get r ''stato'') (rows data)) (JStr ''converted''))
               / of_nat (length (rows data))) / 2 ^ 51)
   \<and> (''stato'' \<in> set (columns data) \<and> length (rows data) = 100
        \<and> count_list (map (\<lambda>r. dict_get r ''stato'') (rows data)) (JStr ''converted'') = 37 \<longrightarrow>
        calculate_conversion_rate data = 37)"
proof (intro conjI; rule impI)
  assume "''stato'' \<notin> set (columns data) \<or> rows data = []"
  then show "calculate_conversion_rate data = 0"
    by (auto simp: calculate_conversion_rate_def)
next
  assume "''stato'' \<in> set (columns data) \<and> rows data \<noteq> []"
  then show "calculate_conversion_rate data =
          float_mul
            (int_truediv
               (int (count_list (map (\<lambda>r. dict_get r ''stato'') (rows data)) (JStr ''converted'')))
               (int (length (rows data))))
            100"
    by (simp add: calculate_conversion_rate_def count_converted)
next
  let ?c = "length (filter (\<lambda>r. dict_get r ''stato'' = JStr ''converted'') (rows data))"
  let ?t = "length (rows data)"
  assume a: "''stato'' \<in> set (columns data) \<and> rows data \<noteq> [] \<and> length (rows data) < 2 ^ 1000"
  then have r: "calculate_conversion_rate data = float_mul (int_truediv (int ?c) (int ?t)) 100"
    by (simp add: calculate_conversion_rate_def)
  have "\<bar>float_mul (int_truediv (int ?c) (int ?t)) 100 - 100 * of_int (int ?c) / of_int (int ?t)\<bar>
      \<le> (100 * of_int (int ?c) / of_int (int ?t)) / 2 ^ 51"
  proof (rule rate_accuracy)
    show "int ?c \<le> int ?t" by simp
    show "0 < int ?t" using a by simp
    have "?t < 2 ^ 1000" using a by simp
    then have "int ?t < int (2 ^ 1000)" by (simp only: of_nat_less_iff)
    then show "int ?t < 2 ^ 1000" by simp
  qed simp
  then show "\<bar>calculate_conversion_rate data
           - 100 * of_nat (count_list (map (\<lambda>r. dict_get r ''stato'') (rows data)) (JStr ''converted''))
               / of_nat (length (rows data))\<bar>
        \<le> (100 * of_nat (count_list (map (\<lambda>r. dict_get r ''stato'') (rows data)) (JStr ''converted''))
               / of_nat (length (rows data))) / 2 ^ 51"
    by (simp add: r count_converted)
next
  assume a: "''stato'' \<in> set (columns data) \<and> length (rows data) = 100
        \<and> count_list (map (\<lambda>r. dict_get r ''stato'') (rows data)) (JStr ''converted'') = 37"
  then have "length (filter (\<lambda>r. dict_get r ''stato'' = JStr ''converted'') (rows data)) = 37"
    by (simp add: count_converted)
  with a show "calculate_conversion_rate data = 37"
    by (simp add: calculate_conversion_rate_def rate_37)
qed

theorem conversion_rate_statistic_witness:
  "''stato'' \<in> set (columns lead_frame) \<and> length (rows lead_frame) = 100
   \<and> rows lead_frame \<noteq> [] \<and> length (rows lead_frame) < 2 ^ 1000
   \<and> count_list (map (\<lambda>r. dict_get r ''stato'') (rows lead_frame)) (JStr ''converted'') = 37
   \<and> calculate_conversion_rate lead_frame = 37
   \<and> calculate_conversion_rate client_frame = 0
   \<and> calculate_conversion_rate \<lparr>columns = [''stato''], rows = []\<rparr> = 0"
proof -
  have c: "''stato'' \<in> set (columns lead_frame)" by (simp add: lead_frame_def)
  have l: "length (rows lead_frame) = 100" by (simp add: lead_frame_def)
  have n: "count_list (map (\<lambda>r. dict_get r ''stato'') (rows lead_frame)) (JStr ''converted'') = 37"
    by code_simp
  have d: "''stato'' \<notin> set (columns client_frame)" by (simp add: client_frame_def)
  have ne: "rows lead_frame \<noteq> []" by (simp add: lead_frame_def)
  show ?thesis
    using c l n d ne
      conversion_rate_statistic [of lead_frame]
      conversion_rate_statistic [of client_frame]
      conversion_rate_statistic [of "\<lparr>columns = [''stato''], rows = []\<rparr>"]
    by simp
qed

end
